theory Spec2Isabelle
  imports Main "HOL-Library.Multiset"
begin

section \<open>Job records and strings\<close>

text \<open>
  A scraped posting, as every scraper of the repository builds it
  (\<^verbatim>\<open>{title, link, department, location, scraped_at}\<close>).
  JavaScript strings are modelled by their UTF-8 bytes (\<^typ>\<open>string\<close>), so that the
  encoding step before hashing is the identity.
\<close>

record job =
  title :: string
  link :: string
  department :: string
  location :: string
  scraped_at :: string

text \<open>
  \<^verbatim>\<open>String.prototype.toLowerCase\<close> belongs to the host: it applies the case mappings
  of the Unicode standard, which no definition here reproduces. The functions that call
  it take it as an argument, named \<open>toLowerCase\<close>, and what is proved about them holds
  for every such function.

  On a string of ASCII characters \<^verbatim>\<open>toLowerCase\<close> replaces \<open>A\<close> to \<open>Z\<close> by \<open>a\<close> to
  \<open>z\<close> and keeps every other character. That part is \<open>ascii_toLowerCase\<close>; it is used
  only where a run is evaluated on records and keywords written in ASCII.
\<close>

type_synonym case_mapping = "string \<Rightarrow> string"

definition lower_char :: "char \<Rightarrow> char" where
  "lower_char c =
     (case map_of (zip ''ABCDEFGHIJKLMNOPQRSTUVWXYZ'' ''abcdefghijklmnopqrstuvwxyz'') c of
        Some l \<Rightarrow> l
      | None \<Rightarrow> c)"

definition ascii_toLowerCase :: case_mapping where
  "ascii_toLowerCase s = map lower_char s"

fun startsWith :: "string \<Rightarrow> string \<Rightarrow> bool" where
  "startsWith s [] = True"
| "startsWith [] (k # ks) = False"
| "startsWith (c # cs) (k # ks) = (c = k \<and> startsWith cs ks)"

text \<open>\<^verbatim>\<open>s.includes(k)\<close>: \<open>k\<close> occurs in \<open>s\<close> as a contiguous substring.\<close>

fun includes_str :: "string \<Rightarrow> string \<Rightarrow> bool" where
  "includes_str [] k = (k = [])"
| "includes_str (c # cs) k = (startsWith (c # cs) k \<or> includes_str cs k)"

text \<open>
  \<^verbatim>\<open>String.prototype.trim\<close> removes white space and line terminators from both ends:
  the ASCII characters TAB, LF, VT, FF, CR and SPACE (\<open>is_space\<close>), and, in their UTF-8
  encoding, U+00A0 (\<open>space2\<close>), U+1680, U+2000 to U+200A, U+2028, U+2029, U+202F,
  U+205F, U+3000 and U+FEFF (\<open>space3\<close>). \<open>strip\<close> removes them from the front of a
  string; with \<open>backwards\<close> set the string is a reversed one, and so are the bytes of a
  character in it.
\<close>

definition is_space :: "char \<Rightarrow> bool" where
  "is_space c = (let n = (of_char c :: nat) in (9 \<le> n \<and> n \<le> 13) \<or> n = 32)"

definition space2 :: "char \<Rightarrow> char \<Rightarrow> bool" where
  "space2 a b = ((of_char a :: nat) = 0xC2 \<and> (of_char b :: nat) = 0xA0)"

definition space3 :: "char \<Rightarrow> char \<Rightarrow> char \<Rightarrow> bool" where
  "space3 a b c =
     (let x = (of_char a :: nat); y = (of_char b :: nat); z = (of_char c :: nat)
      in (x = 0xE1 \<and> y = 0x9A \<and> z = 0x80) \<or>
         (x = 0xE2 \<and> y = 0x80 \<and>
            ((0x80 \<le> z \<and> z \<le> 0x8A) \<or> z = 0xA8 \<or> z = 0xA9 \<or> z = 0xAF)) \<or>
         (x = 0xE2 \<and> y = 0x81 \<and> z = 0x9F) \<or>
         (x = 0xE3 \<and> y = 0x80 \<and> z = 0x80) \<or>
         (x = 0xEF \<and> y = 0xBB \<and> z = 0xBF))"

fun strip :: "bool \<Rightarrow> string \<Rightarrow> string" where
  "strip backwards (a # b # c # s) =
     (if is_space a then strip backwards (b # c # s)
      else if (if backwards then space2 b a else space2 a b) then strip backwards (c # s)
      else if (if backwards then space3 c b a else space3 a b c) then strip backwards s
      else a # b # c # s)"
| "strip backwards [a, b] =
     (if is_space a then strip backwards [b]
      else if (if backwards then space2 b a else space2 a b) then []
      else [a, b])"
| "strip backwards [a] = (if is_space a then [] else [a])"
| "strip backwards [] = []"

definition trim :: "string \<Rightarrow> string" where
  "trim s = rev (strip True (rev (strip False s)))"

section \<open>Keyword filtering\<close>

text \<open>
  The predicate of the \<^verbatim>\<open>filter\<close> callback, the same text in
  \<^verbatim>\<open>shouldSendEmail\<close> (mailslurp-scraper.js) and in
  \<^verbatim>\<open>filterJobsByKeywords\<close> (worker.js):
  \<^verbatim>\<open>
    const searchText = `${job.title} ${job.department}`.toLowerCase();
    return keywords.some(keyword => searchText.includes(keyword.toLowerCase()));
  \<close>
\<close>

definition searchText :: "case_mapping \<Rightarrow> job \<Rightarrow> string" where
  "searchText toLowerCase j = toLowerCase (title j @ '' '' @ department j)"

definition matchesKeywords :: "case_mapping \<Rightarrow> string list \<Rightarrow> job \<Rightarrow> bool" where
  "matchesKeywords toLowerCase keywords j =
     list_ex (\<lambda>keyword. includes_str (searchText toLowerCase j) (toLowerCase keyword))
       keywords"

text \<open>
  worker.js, \<^verbatim>\<open>filterJobsByKeywords(jobs, keywords)\<close>. An absent keyword array
  (\<^verbatim>\<open>!keywords\<close>) is \<open>None\<close>.
\<close>

definition filterJobsByKeywords ::
  "case_mapping \<Rightarrow> job list \<Rightarrow> string list option \<Rightarrow> job list" where
  "filterJobsByKeywords toLowerCase jobs keywords =
     (case keywords of
        None \<Rightarrow> jobs
      | Some ks \<Rightarrow>
          if length ks = 0 then jobs else filter (matchesKeywords toLowerCase ks) jobs)"

text \<open>mailslurp-scraper.js, \<^verbatim>\<open>shouldSendEmail(jobs, keywords)\<close>.\<close>

datatype send_reason = no_keywords_filter | no_keyword_matches | keyword_matches_found

record email_check =
  shouldSend :: bool
  matchingJobs :: "job list"
  reason :: send_reason

definition shouldSendEmail ::
  "case_mapping \<Rightarrow> job list \<Rightarrow> string list option \<Rightarrow> email_check" where
  "shouldSendEmail toLowerCase jobs keywords =
     (case keywords of
        None \<Rightarrow> \<lparr>shouldSend = True, matchingJobs = jobs, reason = no_keywords_filter\<rparr>
      | Some ks \<Rightarrow>
          if length ks = 0
          then \<lparr>shouldSend = True, matchingJobs = jobs, reason = no_keywords_filter\<rparr>
          else (let matching = filter (matchesKeywords toLowerCase ks) jobs in
                if length matching = 0
                then \<lparr>shouldSend = False, matchingJobs = [], reason = no_keyword_matches\<rparr>
                else \<lparr>shouldSend = True, matchingJobs = matching,
                       reason = keyword_matches_found\<rparr>))"

section \<open>The content hash\<close>

subsection \<open>SHA-256\<close>

text \<open>
  \<^verbatim>\<open>crypto.createHash('sha256').update(s).digest('hex')\<close> (Node) and
  \<^verbatim>\<open>crypto.subtle.digest('SHA-256', bytes)\<close> rendered byte by byte with
  \<^verbatim>\<open>toString(16).padStart(2, '0')\<close> (Worker) both compute the SHA-256 digest of
  FIPS 180-4 in lower-case hexadecimal. Words are 32-bit unsigned integers, held as
  naturals below \<open>2 ^ 32\<close> with the wrap-around written out.
\<close>

type_synonym w32 = nat

definition add32 :: "w32 \<Rightarrow> w32 \<Rightarrow> w32" where
  "add32 x y = (x + y) mod 4294967296"

definition rotr :: "nat \<Rightarrow> w32 \<Rightarrow> w32" where
  "rotr n x = x div 2 ^ n + (x mod 2 ^ n) * 2 ^ (32 - n)"

definition shr :: "nat \<Rightarrow> w32 \<Rightarrow> w32" where
  "shr n x = x div 2 ^ n"

definition not32 :: "w32 \<Rightarrow> w32" where
  "not32 x = 4294967295 - x"

definition Ch :: "w32 \<Rightarrow> w32 \<Rightarrow> w32 \<Rightarrow> w32" where
  "Ch x y z = xor (and x y) (and (not32 x) z)"

definition Maj :: "w32 \<Rightarrow> w32 \<Rightarrow> w32 \<Rightarrow> w32" where
  "Maj x y z = xor (xor (and x y) (and x z)) (and y z)"

definition Sigma0 :: "w32 \<Rightarrow> w32" where
  "Sigma0 x = xor (xor (rotr 2 x) (rotr 13 x)) (rotr 22 x)"

definition Sigma1 :: "w32 \<Rightarrow> w32" where
  "Sigma1 x = xor (xor (rotr 6 x) (rotr 11 x)) (rotr 25 x)"

definition sigma0 :: "w32 \<Rightarrow> w32" where
  "sigma0 x = xor (xor (rotr 7 x) (rotr 18 x)) (shr 3 x)"

definition sigma1 :: "w32 \<Rightarrow> w32" where
  "sigma1 x = xor (xor (rotr 17 x) (rotr 19 x)) (shr 10 x)"

text \<open>The round constants and the initial hash value, in decimal.\<close>

definition round_constants :: "w32 list" where
  "round_constants =
    [1116352408, 1899447441, 3049323471, 3921009573, 961987163, 1508970993,
     2453635748, 2870763221, 3624381080, 310598401, 607225278, 1426881987,
     1925078388, 2162078206, 2614888103, 3248222580, 3835390401, 4022224774,
     264347078, 604807628, 770255983, 1249150122, 1555081692, 1996064986,
     2554220882, 2821834349, 2952996808, 3210313671, 3336571891, 3584528711,
     113926993, 338241895, 666307205, 773529912, 1294757372, 1396182291,
     1695183700, 1986661051, 2177026350, 2456956037, 2730485921, 2820302411,
     3259730800, 3345764771, 3516065817, 3600352804, 4094571909, 275423344,
     430227734, 506948616, 659060556, 883997877, 958139571, 1322822218,
     1537002063, 1747873779, 1955562222, 2024104815, 2227730452, 2361852424,
     2428436474, 2756734187, 3204031479, 3329325298]"

definition initial_hash :: "w32 list" where
  "initial_hash =
    [1779033703, 3144134277, 1013904242, 2773480762,
     1359893119, 2600822924, 528734635, 1541459225]"

text \<open>
  The message schedule is kept as a window of the last sixteen words: the head is the
  word of the current round, and the word sixteen rounds ahead is appended.
\<close>

definition next_word :: "w32 list \<Rightarrow> w32" where
  "next_word ws = (sigma1 (ws ! 14) + ws ! 9 + sigma0 (ws ! 1) + ws ! 0) mod 4294967296"

definition round256 :: "w32 \<Rightarrow> w32 \<Rightarrow> w32 list \<Rightarrow> w32 list" where
  "round256 k w s =
     (let t1 = (s ! 7 + Sigma1 (s ! 4) + Ch (s ! 4) (s ! 5) (s ! 6) + k + w) mod 4294967296;
          t2 = (Sigma0 (s ! 0) + Maj (s ! 0) (s ! 1) (s ! 2)) mod 4294967296
      in [add32 t1 t2, s ! 0, s ! 1, s ! 2, add32 (s ! 3) t1, s ! 4, s ! 5, s ! 6])"

fun rounds :: "w32 list \<Rightarrow> w32 list \<Rightarrow> w32 list \<Rightarrow> w32 list" where
  "rounds [] ws s = s"
| "rounds (k # ks) ws s = rounds ks (tl ws @ [next_word ws]) (round256 k (hd ws) s)"

definition compress :: "w32 list \<Rightarrow> w32 list \<Rightarrow> w32 list" where
  "compress hs block = map2 add32 hs (rounds round_constants block hs)"

text \<open>Padding to a multiple of 64 bytes, big-endian words, blocks of sixteen words.\<close>

definition pad :: "nat list \<Rightarrow> nat list" where
  "pad m =
     (let l = length m in
      m @ [128] @ replicate ((119 - l mod 64) mod 64) 0 @
      map (\<lambda>i. (8 * l) div 256 ^ (7 - i) mod 256) [0..<8])"

fun be_words :: "nat list \<Rightarrow> w32 list" where
  "be_words (a # b # c # d # r) = (((a * 256 + b) * 256 + c) * 256 + d) # be_words r"
| "be_words r = []"

fun blocks :: "w32 list \<Rightarrow> w32 list list" where
  "blocks [] = []"
| "blocks (w # ws) = take 16 (w # ws) # blocks (drop 16 (w # ws))"

definition sha256 :: "nat list \<Rightarrow> w32 list" where
  "sha256 m = foldl compress initial_hash (blocks (be_words (pad m)))"

definition hexdigit :: "nat \<Rightarrow> char" where
  "hexdigit n = ''0123456789abcdef'' ! (n mod 16)"

definition hex32 :: "w32 \<Rightarrow> string" where
  "hex32 w = map (\<lambda>i. hexdigit (w div 16 ^ (7 - i))) [0..<8]"

definition sha256_hex :: "string \<Rightarrow> string" where
  "sha256_hex s = concat (map hex32 (sha256 (map of_char s)))"

subsection \<open>Canonical form, sorting and serialisation\<close>

text \<open>
  \<^verbatim>\<open>generateJobsHash\<close> (mailslurp-scraper.js and worker.js, the same expression):
  \<^verbatim>\<open>
    JSON.stringify(jobs.map(job => ({title: job.title, link: job.link,
        department: job.department, location: job.location}))
      .sort((a, b) => a.link.localeCompare(b.link)))
  \<close>
\<close>

record canonical =
  c_title :: string
  c_link :: string
  c_department :: string
  c_location :: string

definition canonical_of :: "job \<Rightarrow> canonical" where
  "canonical_of j =
     \<lparr>c_title = title j, c_link = link j, c_department = department j,
      c_location = location j\<rparr>"

text \<open>
  \<^verbatim>\<open>Array.prototype.sort(comparefn)\<close> is a stable sort: with a consistent comparison
  function every stable sort returns the same array, here computed by insertion. An
  element goes in front of the first one it does not compare greater than, so elements
  that compare equal keep their input order.
\<close>

fun insert_by :: "('a \<Rightarrow> 'a \<Rightarrow> int) \<Rightarrow> 'a \<Rightarrow> 'a list \<Rightarrow> 'a list" where
  "insert_by cmp x [] = [x]"
| "insert_by cmp x (y # ys) =
     (if cmp x y \<le> 0 then x # y # ys else y # insert_by cmp x ys)"

definition array_sort :: "('a \<Rightarrow> 'a \<Rightarrow> int) \<Rightarrow> 'a list \<Rightarrow> 'a list" where
  "array_sort cmp xs = foldr (insert_by cmp) xs []"

text \<open>
  \<^verbatim>\<open>String.prototype.localeCompare\<close> is the collation of the host (ICU in Node and in
  Workers), not code of the repository: it is a parameter of the model, a function that
  returns a negative number, zero or a positive number.
\<close>

type_synonym collation = "string \<Rightarrow> string \<Rightarrow> int"

definition by_link :: "collation \<Rightarrow> canonical \<Rightarrow> canonical \<Rightarrow> int" where
  "by_link localeCompare a b = localeCompare (c_link a) (c_link b)"

text \<open>
  \<^verbatim>\<open>JSON.stringify\<close> of a string: the quotation mark, the backslash and the control
  characters are escaped, every other byte is copied.
\<close>

definition json_escape :: "char \<Rightarrow> string" where
  "json_escape c =
     (let n = (of_char c :: nat) in
      if n = 34 then [CHR 0x5C, CHR 0x22]
      else if n = 92 then [CHR 0x5C, CHR 0x5C]
      else if n = 8 then [CHR 0x5C, CHR ''b'']
      else if n = 12 then [CHR 0x5C, CHR ''f'']
      else if n = 10 then [CHR 0x5C, CHR ''n'']
      else if n = 13 then [CHR 0x5C, CHR ''r'']
      else if n = 9 then [CHR 0x5C, CHR ''t'']
      else if n < 32
        then [CHR 0x5C, CHR ''u'', CHR ''0'', CHR ''0'', hexdigit (n div 16), hexdigit n]
      else [c])"

definition json_string :: "string \<Rightarrow> string" where
  "json_string s = CHR 0x22 # concat (map json_escape s) @ [CHR 0x22]"

definition json_member :: "string \<Rightarrow> string \<Rightarrow> string" where
  "json_member k v = json_string k @ '':'' @ json_string v"

definition json_object :: "canonical \<Rightarrow> string" where
  "json_object e =
     ''{'' @ json_member ''title'' (c_title e) @ '','' @ json_member ''link'' (c_link e) @
     '','' @ json_member ''department'' (c_department e) @ '','' @
     json_member ''location'' (c_location e) @ ''}''"

fun join_with :: "string \<Rightarrow> string list \<Rightarrow> string" where
  "join_with sep [] = []"
| "join_with sep [x] = x"
| "join_with sep (x # y # ys) = x @ sep @ join_with sep (y # ys)"

definition JSON_stringify :: "canonical list \<Rightarrow> string" where
  "JSON_stringify es = ''['' @ join_with '','' (map json_object es) @ '']''"

definition jobsString :: "collation \<Rightarrow> job list \<Rightarrow> string" where
  "jobsString localeCompare jobs =
     JSON_stringify (array_sort (by_link localeCompare) (map canonical_of jobs))"

definition generateJobsHash :: "collation \<Rightarrow> job list \<Rightarrow> string" where
  "generateJobsHash localeCompare jobs = sha256_hex (jobsString localeCompare jobs)"

text \<open>
  The digest as the specification words it: the tuples sorted by \<open>link\<close> in the
  lexicographic order of the raw strings, serialised and hashed.
\<close>

fun compare_raw :: "string \<Rightarrow> string \<Rightarrow> int" where
  "compare_raw [] [] = 0"
| "compare_raw [] (y # ys) = - 1"
| "compare_raw (x # xs) [] = 1"
| "compare_raw (x # xs) (y # ys) =
     (if (of_char x :: nat) < of_char y then - 1
      else if (of_char y :: nat) < of_char x then 1
      else compare_raw xs ys)"


text \<open>
  On strings of ASCII letters the default ICU collation compares the letters
  alphabetically first and looks at their case only to break a tie, lower case first:
  \<^verbatim>\<open>'a'.localeCompare('B')\<close> is negative, although \<open>B\<close> (0x42) is below \<open>a\<close> (0x61)
  as a code unit.
\<close>

definition collate_letters :: collation where
  "collate_letters a b =
     (let primary = compare_raw (ascii_toLowerCase a) (ascii_toLowerCase b)
      in if primary \<noteq> 0 then primary else - compare_raw a b)"

text \<open>What makes a comparison function consistent, and with it the sort determined.\<close>

definition consistent :: "collation \<Rightarrow> bool" where
  "consistent cmp =
     ((\<forall>a b. (cmp a b < 0) = (0 < cmp b a)) \<and>
      (\<forall>a b c. cmp a b \<le> 0 \<and> cmp b c \<le> 0 \<longrightarrow> cmp a c \<le> 0))"

section \<open>The content-hash cycle\<close>

subsection \<open>The e-mail service\<close>

text \<open>
  \<^verbatim>\<open>sendJobAlert(jobs, keywords)\<close> (email-service.js and worker-email-service.js) runs
  inside one \<^verbatim>\<open>try\<close> whose \<^verbatim>\<open>catch\<close> returns \<^verbatim>\<open>{success: false}\<close>: it never
  throws. The two calls that reach the mail provider (getting the inbox, sending the
  message) succeed or throw as the outside world decides.
\<close>

record mail_api =
  inbox_ok :: bool
  send_ok :: bool

datatype alert_result = alert_sent | alert_no_matching_jobs | alert_failed

definition sendJobAlert ::
  "case_mapping \<Rightarrow> mail_api \<Rightarrow> job list \<Rightarrow> string list \<Rightarrow> alert_result" where
  "sendJobAlert toLowerCase api jobs keywords =
     (if \<not> inbox_ok api then alert_failed
      else if length (filterJobsByKeywords toLowerCase jobs (Some keywords)) = 0
        then alert_no_matching_jobs
      else if \<not> send_ok api then alert_failed
      else alert_sent)"

definition success :: "alert_result \<Rightarrow> bool" where
  "success r = (r \<noteq> alert_failed)"

subsection \<open>mailslurp-scraper.js\<close>

text \<open>
  The files of the Node scraper: \<^verbatim>\<open>jobs-hash.txt\<close>, \<^verbatim>\<open>latest-jobs.json\<close> and
  \<^verbatim>\<open>scraper-log.json\<close>. An absent file is \<open>None\<close> (an absent log is the empty list).
  A write that succeeds replaces the content of its file.
\<close>

datatype activity =
    scrape_completed_warning
  | check_completed_no_changes nat string
  | check_completed_no_email nat send_reason string
  | email_sent_entry nat nat string
  | email_failed_entry nat nat string
  | check_failed string

record node_files =
  hashFile :: "string option"
  jobsFile :: "job list option"
  logFile :: "activity list"

definition loadPreviousHash :: "node_files \<Rightarrow> string option" where
  "loadPreviousHash fs = map_option trim (hashFile fs)"

text \<open>
  \<^verbatim>\<open>saveHash(hash)\<close> and \<^verbatim>\<open>saveJobs(jobs)\<close> await \<^verbatim>\<open>fs.writeFile\<close> inside a
  \<^verbatim>\<open>try\<close> whose \<^verbatim>\<open>catch\<close> prints the error: when the write is rejected
  (\<open>written = False\<close>) the file keeps what it held and the caller goes on.
\<close>

definition saveHash :: "bool \<Rightarrow> string \<Rightarrow> node_files \<Rightarrow> node_files" where
  "saveHash written h fs = (if written then fs\<lparr>hashFile := Some h\<rparr> else fs)"

definition saveJobs :: "bool \<Rightarrow> job list \<Rightarrow> node_files \<Rightarrow> node_files" where
  "saveJobs written jobs fs = (if written then fs\<lparr>jobsFile := Some jobs\<rparr> else fs)"

text \<open>
  \<^verbatim>\<open>logActivity(activity)\<close> appends to the activity log and keeps its last hundred
  entries. The log is no part of the state the detection reads; its write is taken to
  succeed.
\<close>

definition logActivity :: "activity \<Rightarrow> node_files \<Rightarrow> node_files" where
  "logActivity entry fs =
     (let logs = logFile fs @ [entry]
      in fs\<lparr>logFile := (if length logs > 100 then drop (length logs - 100) logs else logs)\<rparr>)"

text \<open>
  What one run of \<^verbatim>\<open>checkForJobs\<close> meets: the result of \<^verbatim>\<open>scrapeJobs()\<close> (\<open>Inl\<close>
  when it throws), the configured keywords, whether \<^verbatim>\<open>emailService\<close> is set, the
  mail provider, the \<^verbatim>\<open>toLowerCase\<close> of the host, and whether the write of the hash
  file and the write of the jobs file succeed.
\<close>

record node_cycle =
  scraped :: "string + job list"
  scraping_keywords :: "string list"
  emailService :: bool
  mailslurp :: mail_api
  node_toLowerCase :: case_mapping
  hashFile_written :: bool
  jobsFile_written :: bool

datatype outcome = check_error | no_jobs_found | no_changes | no_email | jobs_processed

record node_run =
  branch :: outcome
  alert :: "alert_result option"
  files :: node_files

definition checkForJobs :: "collation \<Rightarrow> node_cycle \<Rightarrow> node_files \<Rightarrow> node_run" where
  "checkForJobs localeCompare cyc fs =
     (case scraped cyc of
        Inl err \<Rightarrow>
          \<lparr>branch = check_error, alert = None, files = logActivity (check_failed err) fs\<rparr>
      | Inr currentJobs \<Rightarrow>
          if length currentJobs = 0
          then \<lparr>branch = no_jobs_found, alert = None,
                files = logActivity scrape_completed_warning fs\<rparr>
          else
            (let currentHash = generateJobsHash localeCompare currentJobs;
                 previousHash = loadPreviousHash fs
             in if Some currentHash = previousHash
                then \<lparr>branch = no_changes, alert = None,
                      files = logActivity
                        (check_completed_no_changes (length currentJobs) (take 12 currentHash)) fs\<rparr>
                else
                  (let emailCheck = shouldSendEmail (node_toLowerCase cyc) currentJobs
                                      (Some (scraping_keywords cyc))
                   in if \<not> shouldSend emailCheck
                      then \<lparr>branch = no_email, alert = None,
                            files = logActivity
                              (check_completed_no_email (length currentJobs) (reason emailCheck)
                                 (take 12 currentHash))
                              (saveJobs (jobsFile_written cyc) currentJobs
                                 (saveHash (hashFile_written cyc) currentHash fs))\<rparr>
                      else if emailService cyc
                      then
                        (let emailResult =
                               sendJobAlert (node_toLowerCase cyc) (mailslurp cyc)
                                 (matchingJobs emailCheck) (scraping_keywords cyc);
                             entry =
                               (if success emailResult
                                then email_sent_entry (length currentJobs)
                                       (length (matchingJobs emailCheck)) (take 12 currentHash)
                                else email_failed_entry (length currentJobs)
                                       (length (matchingJobs emailCheck)) (take 12 currentHash))
                         in \<lparr>branch = jobs_processed, alert = Some emailResult,
                              files = saveJobs (jobsFile_written cyc) currentJobs
                                        (saveHash (hashFile_written cyc) currentHash
                                           (logActivity entry fs))\<rparr>)
                      else \<lparr>branch = jobs_processed, alert = None,
                            files = saveJobs (jobsFile_written cyc) currentJobs
                                      (saveHash (hashFile_written cyc) currentHash fs)\<rparr>)))"

subsection \<open>worker.js\<close>

text \<open>
  The Worker keeps its state in the KV namespace \<^verbatim>\<open>JOB_STORAGE\<close> under the keys
  \<^verbatim>\<open>jobs-hash\<close>, \<^verbatim>\<open>latest-jobs\<close> and \<^verbatim>\<open>activity-logs\<close>.
\<close>

datatype worker_log = jobs_found nat nat string "(string \<times> string) list" | error_entry string

record kv_store =
  jobs_hash :: "string option"
  latest_jobs :: "job list option"
  activity_logs :: "worker_log list"

definition put_log :: "worker_log \<Rightarrow> kv_store \<Rightarrow> kv_store" where
  "put_log entry kv =
     (let logs = activity_logs kv @ [entry]
      in kv\<lparr>activity_logs := drop (length logs - 10) logs\<rparr>)"

text \<open>
  The calls to \<^verbatim>\<open>env.JOB_STORAGE\<close> in \<^verbatim>\<open>checkForJobs\<close>, in the order of the code:
  reading the stored digest, writing the digest, writing the records, reading the log,
  writing the log; and, as one, the reading and writing of the log inside the
  \<^verbatim>\<open>catch\<close>. Each of them is awaited and may be rejected.
\<close>

datatype kv_call =
    get_jobs_hash
  | put_jobs_hash
  | put_latest_jobs
  | get_activity_logs
  | put_activity_logs
  | put_error_log

text \<open>
  The environment of one invocation. \<open>EMAIL_ENABLED\<close> is the value of
  \<^verbatim>\<open>env.EMAIL_ENABLED !== 'false'\<close>; a variable that is not set is \<open>None\<close>, and a string
  is truthy when it is not empty. \<open>worker_toLowerCase\<close> is the \<^verbatim>\<open>toLowerCase\<close> of the
  host. \<open>storage_error\<close> gives, for a call to the KV namespace that is rejected, the
  message of its error, and \<open>None\<close> for a call that resolves.
\<close>

record worker_env =
  fetched :: "string + job list"
  JOB_KEYWORDS :: "string list"
  EMAIL_ENABLED :: bool
  EMAIL_RECEIVER :: "string option"
  MAILSLURP_API_KEY :: "string option"
  mailslurp_api :: mail_api
  worker_toLowerCase :: case_mapping
  storage_error :: "kv_call \<Rightarrow> string option"

definition truthy :: "string option \<Rightarrow> bool" where
  "truthy v = (case v of None \<Rightarrow> False | Some s \<Rightarrow> s \<noteq> [])"

datatype worker_result =
    No_jobs_found
  | No_changes_detected
  | No_matching_jobs_found
  | Jobs_processed_successfully "job list"
  | Failure string

record worker_run =
  result :: worker_result
  worker_alert :: "alert_result option"
  kv :: kv_store

text \<open>
  The \<^verbatim>\<open>catch\<close> of \<^verbatim>\<open>checkForJobs\<close>: it appends the error to the log, inside a
  \<^verbatim>\<open>try\<close> of its own, and returns \<^verbatim>\<open>{success: false, error: error.message}\<close>.
  \<open>sent\<close> is the answer of \<^verbatim>\<open>sendJobAlert\<close> when the error was thrown after it, and
  \<open>st\<close> the store as the calls before the error left it.
\<close>

definition caught ::
  "worker_env \<Rightarrow> alert_result option \<Rightarrow> string \<Rightarrow> kv_store \<Rightarrow> worker_run" where
  "caught env sent err st =
     \<lparr>result = Failure err, worker_alert = sent,
      kv = (if storage_error env put_error_log = None then put_log (error_entry err) st
            else st)\<rparr>"

text \<open>
  The two writes of the state,
  \<^verbatim>\<open>await env.JOB_STORAGE.put('jobs-hash', currentHash)\<close> and then
  \<^verbatim>\<open>await env.JOB_STORAGE.put('latest-jobs', JSON.stringify(currentJobs))\<close>: \<open>Inl\<close>
  is the error of the first write that was rejected, with the store as it is then.
\<close>

definition put_state ::
  "worker_env \<Rightarrow> string \<Rightarrow> job list \<Rightarrow> kv_store \<Rightarrow> (string \<times> kv_store) + kv_store" where
  "put_state env currentHash currentJobs st =
     (case storage_error env put_jobs_hash of
        Some err \<Rightarrow> Inl (err, st)
      | None \<Rightarrow>
          (case storage_error env put_latest_jobs of
             Some err \<Rightarrow> Inl (err, st\<lparr>jobs_hash := Some currentHash\<rparr>)
           | None \<Rightarrow> Inr (st\<lparr>jobs_hash := Some currentHash, latest_jobs := Some currentJobs\<rparr>)))"

text \<open>
  The end of the \<^verbatim>\<open>try\<close>, after the notification: the two writes of the state, then
  the entry appended to the log.
\<close>

definition save_and_log ::
  "worker_env \<Rightarrow> alert_result option \<Rightarrow> string \<Rightarrow> job list \<Rightarrow> job list \<Rightarrow> kv_store \<Rightarrow>
   worker_run" where
  "save_and_log env sent currentHash currentJobs matching st =
     (case put_state env currentHash currentJobs st of
        Inl (err, st') \<Rightarrow> caught env sent err st'
      | Inr saved \<Rightarrow>
          (case storage_error env get_activity_logs of
             Some err \<Rightarrow> caught env sent err saved
           | None \<Rightarrow>
               (case storage_error env put_activity_logs of
                  Some err \<Rightarrow> caught env sent err saved
                | None \<Rightarrow>
                    \<lparr>result = Jobs_processed_successfully matching, worker_alert = sent,
                     kv = put_log
                       (jobs_found (length currentJobs) (length matching) (take 12 currentHash)
                          (map (\<lambda>j. (title j, link j)) matching))
                       saved\<rparr>)))"

text \<open>
  \<^verbatim>\<open>new WorkerEmailService(env)\<close> throws when \<^verbatim>\<open>MAILSLURP_API_KEY\<close> is missing; the
  call stands inside the \<^verbatim>\<open>try\<close> of \<^verbatim>\<open>checkForJobs\<close>, before the writes of the
  state, and the \<^verbatim>\<open>catch\<close> logs the error and returns.
\<close>

definition checkForJobs_worker :: "collation \<Rightarrow> worker_env \<Rightarrow> kv_store \<Rightarrow> worker_run" where
  "checkForJobs_worker localeCompare env store =
     (case fetched env of
        Inl err \<Rightarrow> caught env None err store
      | Inr currentJobs \<Rightarrow>
          if length currentJobs = 0
          then \<lparr>result = No_jobs_found, worker_alert = None, kv = store\<rparr>
          else
            (let currentHash = generateJobsHash localeCompare currentJobs
             in case storage_error env get_jobs_hash of
                  Some err \<Rightarrow> caught env None err store
                | None \<Rightarrow>
                    (let previousHash = jobs_hash store
                     in if Some currentHash = previousHash
                        then \<lparr>result = No_changes_detected, worker_alert = None, kv = store\<rparr>
                        else
                          (let matching = filterJobsByKeywords (worker_toLowerCase env)
                                            currentJobs (Some (JOB_KEYWORDS env))
                           in if length matching = 0
                              then
                                (case put_state env currentHash currentJobs store of
                                   Inl (err, st) \<Rightarrow> caught env None err st
                                 | Inr saved \<Rightarrow>
                                     \<lparr>result = No_matching_jobs_found, worker_alert = None,
                                      kv = saved\<rparr>)
                              else if EMAIL_ENABLED env \<and> truthy (EMAIL_RECEIVER env)
                              then
                                (if \<not> truthy (MAILSLURP_API_KEY env)
                                 then caught env None
                                        ''MAILSLURP_API_KEY is required in environment variables''
                                        store
                                 else save_and_log env
                                        (Some (sendJobAlert (worker_toLowerCase env)
                                           (mailslurp_api env) matching (JOB_KEYWORDS env)))
                                        currentHash currentJobs matching store)
                              else save_and_log env None currentHash currentJobs matching
                                     store))))"

section \<open>The notification fanout (enhanced-scraper.js)\<close>

datatype sink = Console | Email | Discord | Telegram | Webhook | FileLog

record config =
  console_enabled :: bool
  email_enabled :: bool
  email_to :: "string option"
  discord_enabled :: bool
  discord_webhookUrl :: "string option"
  telegram_enabled :: bool
  telegram_botToken :: "string option"
  telegram_chatId :: "string option"
  webhook_enabled :: bool
  webhook_url :: "string option"
  fileLog_enabled :: bool

definition enabled :: "config \<Rightarrow> sink \<Rightarrow> bool" where
  "enabled cfg s =
     (case s of
        Console \<Rightarrow> console_enabled cfg
      | Email \<Rightarrow> email_enabled cfg
      | Discord \<Rightarrow> discord_enabled cfg
      | Telegram \<Rightarrow> telegram_enabled cfg
      | Webhook \<Rightarrow> webhook_enabled cfg
      | FileLog \<Rightarrow> fileLog_enabled cfg)"

definition all_sinks :: "sink list" where
  "all_sinks = [Console, Email, Discord, Telegram, Webhook, FileLog]"

definition enabled_sinks :: "config \<Rightarrow> sink list" where
  "enabled_sinks cfg = filter (enabled cfg) all_sinks"

text \<open>
  The outside world of one fanout: for each sink, whether its dynamic
  \<^verbatim>\<open>import('node-fetch')\<close> resolves and whether its delivery call
  (\<^verbatim>\<open>sendMail\<close>, \<^verbatim>\<open>fetch\<close>, \<^verbatim>\<open>appendFile\<close>) resolves; \<open>False\<close> is a rejection.
\<close>

record world =
  import_ok :: "sink \<Rightarrow> bool"
  delivery_ok :: "sink \<Rightarrow> bool"

text \<open>What a sink hands to its delivery call, as far as the records in it go.\<close>

record discord_field =
  field_name :: string
  field_text :: string
  field_inline :: bool

datatype payload =
    mail_options nat "job list"
  | discord_embed nat "discord_field list"
  | telegram_text nat "job list"
  | webhook_body "job list" nat
  | log_line nat "job list"

datatype promise_state = fulfilled | rejected

datatype sink_action =
    returned_early
  | import_failed
  | delivered payload
  | delivery_error_logged payload

record sink_run =
  settlement :: promise_state
  action :: sink_action

text \<open>
  Every sink is an \<^verbatim>\<open>async\<close> function: calling it never throws, it returns a promise.
  The delivery call stands in a \<^verbatim>\<open>try\<close> whose \<^verbatim>\<open>catch\<close> logs the error, so the
  promise is fulfilled whether the delivery resolved or not; only the dynamic import,
  which stands outside the \<^verbatim>\<open>try\<close>, can reject it.
\<close>

definition deliver :: "world \<Rightarrow> sink \<Rightarrow> payload \<Rightarrow> sink_run" where
  "deliver w s p =
     (if delivery_ok w s then \<lparr>settlement = fulfilled, action = delivered p\<rparr>
      else \<lparr>settlement = fulfilled, action = delivery_error_logged p\<rparr>)"

definition sendEmailNotification :: "config \<Rightarrow> bool \<Rightarrow> world \<Rightarrow> job list \<Rightarrow> sink_run" where
  "sendEmailNotification cfg transporter w newJobs =
     (if \<not> transporter \<or> \<not> truthy (email_to cfg)
      then \<lparr>settlement = fulfilled, action = returned_early\<rparr>
      else deliver w Email (mail_options (length newJobs) newJobs))"

definition discord_field_of :: "job \<Rightarrow> discord_field" where
  "discord_field_of j =
     \<lparr>field_name = title j,
      field_text = ''**Department:** '' @ department j @ [CHR 0x0A] @ ''**Location:** '' @
        location j @ [CHR 0x0A] @ ''[Apply Here]('' @ link j @ '')'',
      field_inline = False\<rparr>"

definition sendDiscordNotification :: "config \<Rightarrow> world \<Rightarrow> job list \<Rightarrow> sink_run" where
  "sendDiscordNotification cfg w newJobs =
     (if \<not> discord_enabled cfg \<or> \<not> truthy (discord_webhookUrl cfg)
      then \<lparr>settlement = fulfilled, action = returned_early\<rparr>
      else if \<not> import_ok w Discord then \<lparr>settlement = rejected, action = import_failed\<rparr>
      else deliver w Discord
             (discord_embed (length newJobs) (map discord_field_of (take 10 newJobs))))"

definition sendTelegramNotification :: "config \<Rightarrow> world \<Rightarrow> job list \<Rightarrow> sink_run" where
  "sendTelegramNotification cfg w newJobs =
     (if \<not> telegram_enabled cfg \<or> \<not> truthy (telegram_botToken cfg) \<or>
         \<not> truthy (telegram_chatId cfg)
      then \<lparr>settlement = fulfilled, action = returned_early\<rparr>
      else if \<not> import_ok w Telegram then \<lparr>settlement = rejected, action = import_failed\<rparr>
      else deliver w Telegram (telegram_text (length newJobs) newJobs))"

definition sendWebhookNotification :: "config \<Rightarrow> world \<Rightarrow> job list \<Rightarrow> sink_run" where
  "sendWebhookNotification cfg w newJobs =
     (if \<not> webhook_enabled cfg \<or> \<not> truthy (webhook_url cfg)
      then \<lparr>settlement = fulfilled, action = returned_early\<rparr>
      else if \<not> import_ok w Webhook then \<lparr>settlement = rejected, action = import_failed\<rparr>
      else deliver w Webhook (webhook_body newJobs (length newJobs)))"

definition logToFile :: "config \<Rightarrow> world \<Rightarrow> job list \<Rightarrow> sink_run" where
  "logToFile cfg w newJobs =
     (if \<not> fileLog_enabled cfg then \<lparr>settlement = fulfilled, action = returned_early\<rparr>
      else deliver w FileLog (log_line (length newJobs) newJobs))"

text \<open>
  \<^verbatim>\<open>sendNotifications(newJobs)\<close>: the console block runs inline; one promise is pushed
  for each of the other sinks that is enabled; \<^verbatim>\<open>await Promise.allSettled(notifications)\<close>
  waits for all of them and is fulfilled whatever they settled to; its array of
  outcomes is not bound to anything, and the function has no \<^verbatim>\<open>return\<close>, so the
  caller receives \<^verbatim>\<open>undefined\<close> (\<open>None\<close>).
\<close>

definition allSettled :: "(sink \<times> sink_run) list \<Rightarrow> promise_state \<times> (sink \<times> sink_run) list" where
  "allSettled notifications = (fulfilled, notifications)"

record fanout =
  console_lines :: "job list option"
  awaited :: "(sink \<times> sink_run) list"
  completion :: promise_state
  returned :: "(sink \<times> sink_run) list option"

definition sendNotifications :: "config \<Rightarrow> bool \<Rightarrow> world \<Rightarrow> job list \<Rightarrow> fanout" where
  "sendNotifications cfg transporter w newJobs =
     (let notifications =
            (if email_enabled cfg
             then [(Email, sendEmailNotification cfg transporter w newJobs)] else []) @
            (if discord_enabled cfg
             then [(Discord, sendDiscordNotification cfg w newJobs)] else []) @
            (if telegram_enabled cfg
             then [(Telegram, sendTelegramNotification cfg w newJobs)] else []) @
            (if webhook_enabled cfg
             then [(Webhook, sendWebhookNotification cfg w newJobs)] else []) @
            (if fileLog_enabled cfg then [(FileLog, logToFile cfg w newJobs)] else []);
          outcomes = allSettled notifications
      in \<lparr>console_lines = (if console_enabled cfg then Some newJobs else None),
          awaited = snd outcomes,
          completion = fst outcomes,
          returned = None\<rparr>)"

text \<open>What one sink does when it is called alone, for comparison with the fanout.\<close>

definition run_sink :: "config \<Rightarrow> bool \<Rightarrow> world \<Rightarrow> job list \<Rightarrow> sink \<Rightarrow> sink_run" where
  "run_sink cfg transporter w newJobs s =
     (case s of
        Console \<Rightarrow> \<lparr>settlement = fulfilled, action = returned_early\<rparr>
      | Email \<Rightarrow> sendEmailNotification cfg transporter w newJobs
      | Discord \<Rightarrow> sendDiscordNotification cfg w newJobs
      | Telegram \<Rightarrow> sendTelegramNotification cfg w newJobs
      | Webhook \<Rightarrow> sendWebhookNotification cfg w newJobs
      | FileLog \<Rightarrow> logToFile cfg w newJobs)"

section \<open>The identity-set cycle\<close>

text \<open>
  \<^verbatim>\<open>checkForNewJobs\<close> of enhanced-scraper.js. The module variable \<^verbatim>\<open>previousJobs\<close> is
  passed in and returned. \<^verbatim>\<open>await sendNotifications(newJobs)\<close> stands before the
  assignment to \<^verbatim>\<open>previousJobs\<close>, inside the \<^verbatim>\<open>try\<close>: were its promise rejected,
  the assignment would be skipped.
\<close>

record identity_run =
  toNotify :: "job list option"
  sending :: "fanout option"
  previousJobs :: "string set"

definition checkForNewJobs ::
  "config \<Rightarrow> bool \<Rightarrow> world \<Rightarrow> (string + job list) \<Rightarrow> string set \<Rightarrow> identity_run" where
  "checkForNewJobs cfg transporter w scrape previous =
     (case scrape of
        Inl err \<Rightarrow> \<lparr>toNotify = None, sending = None, previousJobs = previous\<rparr>
      | Inr currentJobs \<Rightarrow>
          if length currentJobs = 0
          then \<lparr>toNotify = None, sending = None, previousJobs = previous\<rparr>
          else
            (let newJobs = filter (\<lambda>j. link j \<notin> previous) currentJobs
             in if length newJobs > 0
                then
                  (let fan = sendNotifications cfg transporter w newJobs
                   in if completion fan = rejected
                      then \<lparr>toNotify = Some newJobs, sending = Some fan,
                            previousJobs = previous\<rparr>
                      else \<lparr>toNotify = Some newJobs, sending = Some fan,
                            previousJobs = set (map link currentJobs)\<rparr>)
                else \<lparr>toNotify = None, sending = None, previousJobs = previous\<rparr>))"

text \<open>
  \<^verbatim>\<open>checkForNewJobs\<close> of the archived scraper.js: no guard for an empty scrape, one
  sink. Its \<^verbatim>\<open>sendEmailNotification\<close> catches the error of \<^verbatim>\<open>sendMail\<close>, so the
  promise it returns is always fulfilled.
\<close>

record basic_run =
  mailed :: "(payload \<times> bool) option"
  basic_previousJobs :: "string set"

definition checkForNewJobs_basic :: "bool \<Rightarrow> (string + job list) \<Rightarrow> string set \<Rightarrow> basic_run" where
  "checkForNewJobs_basic sendMail_ok scrape previous =
     (case scrape of
        Inl err \<Rightarrow> \<lparr>mailed = None, basic_previousJobs = previous\<rparr>
      | Inr currentJobs \<Rightarrow>
          (let currentJobStrings = map link currentJobs;
               newJobs = filter (\<lambda>j. link j \<notin> previous) currentJobs
           in if length newJobs > 0
              then \<lparr>mailed = Some (mail_options (length newJobs) newJobs, sendMail_ok),
                    basic_previousJobs = set currentJobStrings\<rparr>
              else \<lparr>mailed = None, basic_previousJobs = previous\<rparr>))"

text \<open>The detector as the specification words it, for the identity-set strategy.\<close>

datatype detection = Unchanged | Changed "job list" "string set"

definition spec_detect_identity :: "job list \<Rightarrow> string set \<Rightarrow> detection" where
  "spec_detect_identity current previous =
     (let toNotify = filter (\<lambda>j. link j \<notin> previous) current
      in if toNotify = [] then Unchanged else Changed toNotify (set (map link current)))"

text \<open>
  What a run of the code amounts to in these terms: the records handed to the sinks, if
  any, and the identity set after the run.
\<close>

definition detection_of :: "job list option \<Rightarrow> string set \<Rightarrow> detection" where
  "detection_of handed after =
     (case handed of None \<Rightarrow> Unchanged | Some records \<Rightarrow> Changed records after)"

definition handed_over :: "basic_run \<Rightarrow> job list option" where
  "handed_over r =
     (case mailed r of
        Some (mail_options n js, ok) \<Rightarrow> Some js
      | _ \<Rightarrow> None)"

text \<open>The payload a sink handed to its delivery call, if it reached one.\<close>

definition attempted :: "sink_run \<Rightarrow> payload option" where
  "attempted r =
     (case action r of
        delivered p \<Rightarrow> Some p
      | delivery_error_logged p \<Rightarrow> Some p
      | _ \<Rightarrow> None)"

text \<open>
  A keyword occurs in a text without regard to case when, both taken to lower case by
  the host, the keyword is a contiguous part of the text.
\<close>

definition occurs_ignoring_case :: "case_mapping \<Rightarrow> string \<Rightarrow> string \<Rightarrow> bool" where
  "occurs_ignoring_case toLowerCase keyword s =
     (\<exists>before after. toLowerCase s = before @ toLowerCase keyword @ after)"

section \<open>Example data\<close>

text \<open>
  Records, configurations and worlds used where a statement is checked on a concrete
  input. \<open>posting\<close> fills the department and the location with the defaults of the
  scrapers.
\<close>

definition posting :: "string \<Rightarrow> string \<Rightarrow> job" where
  "posting t l =
     \<lparr>title = t, link = l, department = ''Engineering'', location = ''Bangalore, India'',
      scraped_at = ''2024-01-01T00:00:00.000Z''\<rparr>"

text \<open>The configuration without any environment variable: the console only.\<close>

definition console_only :: config where
  "console_only =
     \<lparr>console_enabled = True, email_enabled = False, email_to = None,
      discord_enabled = False, discord_webhookUrl = None,
      telegram_enabled = False, telegram_botToken = None, telegram_chatId = None,
      webhook_enabled = False, webhook_url = None, fileLog_enabled = False\<rparr>"

text \<open>Three network sinks, configured: Discord, Telegram and the generic webhook.\<close>

definition three_sinks :: config where
  "three_sinks =
     \<lparr>console_enabled = False, email_enabled = False, email_to = None,
      discord_enabled = True, discord_webhookUrl = Some ''https://discord.com/api/webhooks/1/x'',
      telegram_enabled = True, telegram_botToken = Some ''123:abc'',
      telegram_chatId = Some ''42'',
      webhook_enabled = True, webhook_url = Some ''https://example.org/jobs'',
      fileLog_enabled = False\<rparr>"

text \<open>Every sink enabled and configured.\<close>

definition every_sink :: config where
  "every_sink =
     \<lparr>console_enabled = True, email_enabled = True, email_to = Some ''me@example.org'',
      discord_enabled = True, discord_webhookUrl = Some ''https://discord.com/api/webhooks/1/x'',
      telegram_enabled = True, telegram_botToken = Some ''123:abc'',
      telegram_chatId = Some ''42'',
      webhook_enabled = True, webhook_url = Some ''https://example.org/jobs'',
      fileLog_enabled = True\<rparr>"

definition all_up :: world where
  "all_up = \<lparr>import_ok = (\<lambda>s. True), delivery_ok = (\<lambda>s. True)\<rparr>"

definition telegram_down :: world where
  "telegram_down = \<lparr>import_ok = (\<lambda>s. True), delivery_ok = (\<lambda>s. s \<noteq> Telegram)\<rparr>"

definition no_files :: node_files where
  "no_files = \<lparr>hashFile = None, jobsFile = None, logFile = []\<rparr>"

definition empty_store :: kv_store where
  "empty_store = \<lparr>jobs_hash = None, latest_jobs = None, activity_logs = []\<rparr>"

definition mail_up :: mail_api where
  "mail_up = \<lparr>inbox_ok = True, send_ok = True\<rparr>"

definition mail_down :: mail_api where
  "mail_down = \<lparr>inbox_ok = True, send_ok = False\<rparr>"

definition backend_job :: job where
  "backend_job = posting ''Backend Engineer'' ''https://careers.airbnb.com/positions/1/''"

definition designer_job :: job where
  "designer_job = posting ''Designer'' ''https://careers.airbnb.com/positions/2/''"

text \<open>The same posting, scraped two days later.\<close>

definition backend_job_later :: job where
  "backend_job_later = backend_job\<lparr>scraped_at := ''2024-01-03T00:00:00.000Z''\<rparr>"

definition eleven_postings :: "job list" where
  "eleven_postings =
     [posting ''Engineer 1'' ''https://careers.airbnb.com/positions/1/'',
      posting ''Engineer 2'' ''https://careers.airbnb.com/positions/2/'',
      posting ''Engineer 3'' ''https://careers.airbnb.com/positions/3/'',
      posting ''Engineer 4'' ''https://careers.airbnb.com/positions/4/'',
      posting ''Engineer 5'' ''https://careers.airbnb.com/positions/5/'',
      posting ''Engineer 6'' ''https://careers.airbnb.com/positions/6/'',
      posting ''Engineer 7'' ''https://careers.airbnb.com/positions/7/'',
      posting ''Engineer 8'' ''https://careers.airbnb.com/positions/8/'',
      posting ''Engineer 9'' ''https://careers.airbnb.com/positions/9/'',
      posting ''Engineer 10'' ''https://careers.airbnb.com/positions/10/'',
      posting ''Engineer 11'' ''https://careers.airbnb.com/positions/11/'']"

text \<open>
  Short records as worker.js can extract them (the link is the raw \<^verbatim>\<open>href\<close>
  attribute, the department and the location are what the patterns captured, possibly
  nothing): two with the same link, and two whose links differ in the case of their
  first letter.
\<close>

definition short_job :: "string \<Rightarrow> string \<Rightarrow> job" where
  "short_job t l =
     \<lparr>title = t, link = l, department = '''', location = '''',
      scraped_at = ''2024-01-01T00:00:00.000Z''\<rparr>"

text \<open>
  One run of the Node scraper and of the Worker with the keywords \<open>Software\<close> and
  \<open>Backend\<close>, the e-mail service set up, a receiver, and files and a KV namespace that
  take every write. The records and the keywords of the examples are written in ASCII,
  where the \<^verbatim>\<open>toLowerCase\<close> of every host is \<open>ascii_toLowerCase\<close>.
\<close>

definition node_cycle_of :: "job list \<Rightarrow> mail_api \<Rightarrow> node_cycle" where
  "node_cycle_of jobs api =
     \<lparr>scraped = Inr jobs, scraping_keywords = [''Software'', ''Backend''],
      emailService = True, mailslurp = api, node_toLowerCase = ascii_toLowerCase,
      hashFile_written = True, jobsFile_written = True\<rparr>"

definition worker_env_of :: "job list \<Rightarrow> string option \<Rightarrow> mail_api \<Rightarrow> worker_env" where
  "worker_env_of jobs api_key api =
     \<lparr>fetched = Inr jobs, JOB_KEYWORDS = [''Software'', ''Backend''], EMAIL_ENABLED = True,
      EMAIL_RECEIVER = Some ''me@example.org'', MAILSLURP_API_KEY = api_key,
      mailslurp_api = api, worker_toLowerCase = ascii_toLowerCase,
      storage_error = (\<lambda>c. None)\<rparr>"

section \<open>Substrings and case\<close>

lemma startsWith_iff: "startsWith s k \<longleftrightarrow> (\<exists>r. s = k @ r)"
  by (induction s k rule: startsWith.induct) auto

lemma includes_str_iff: "includes_str s k \<longleftrightarrow> (\<exists>p r. s = p @ k @ r)"
proof (induction s)
  case Nil
  then show ?case by auto
next
  case (Cons c cs)
  show ?case
  proof
    assume "includes_str (c # cs) k"
    then consider "startsWith (c # cs) k" | "includes_str cs k" by auto
    then show "\<exists>p r. c # cs = p @ k @ r"
    proof cases
      case 1
      then obtain r where "c # cs = k @ r" using startsWith_iff by blast
      then have "c # cs = [] @ k @ r" by simp
      then show ?thesis by blast
    next
      case 2
      then obtain p r where "cs = p @ k @ r" using Cons.IH by blast
      then have "c # cs = (c # p) @ k @ r" by simp
      then show ?thesis by blast
    qed
  next
    assume "\<exists>p r. c # cs = p @ k @ r"
    then obtain p r where e: "c # cs = p @ k @ r" by blast
    show "includes_str (c # cs) k"
    proof (cases p)
      case Nil
      with e have "startsWith (c # cs) k" using startsWith_iff by auto
      then show ?thesis by simp
    next
      case (Cons a p')
      with e have "cs = p' @ k @ r" by simp
      then have "includes_str cs k" using Cons.IH by blast
      then show ?thesis by simp
    qed
  qed
qed

lemma map_eq_append3:
  assumes "map f s = p @ q @ r"
  shows "\<exists>s1 s2 s3. s = s1 @ s2 @ s3 \<and> map f s2 = q"
proof -
  have "map f (take (length q) (drop (length p) s)) = take (length q) (drop (length p) (map f s))"
    by (simp add: take_map drop_map)
  then have "map f (take (length q) (drop (length p) s)) = q"
    using assms by simp
  moreover have "s = take (length p) s @ take (length q) (drop (length p) s) @
      drop (length q) (drop (length p) s)"
    by (simp only: append_take_drop_id)
  ultimately show ?thesis by blast
qed

lemma includes_lower_iff:
  "includes_str (lower s) (lower k) \<longleftrightarrow> occurs_ignoring_case lower k s"
  by (simp add: includes_str_iff occurs_ignoring_case_def)

text \<open>
  For the case mapping of ASCII, which works letter by letter, this is to say that some
  contiguous part of the text is the keyword up to the case of its letters.
\<close>

lemma occurs_ignoring_case_ascii:
  "occurs_ignoring_case ascii_toLowerCase k s \<longleftrightarrow>
     (\<exists>before part after. s = before @ part @ after \<and>
        ascii_toLowerCase part = ascii_toLowerCase k)"
proof
  assume "occurs_ignoring_case ascii_toLowerCase k s"
  then obtain p r where "map lower_char s = p @ map lower_char k @ r"
    unfolding occurs_ignoring_case_def ascii_toLowerCase_def by blast
  then show "\<exists>before part after. s = before @ part @ after \<and>
      ascii_toLowerCase part = ascii_toLowerCase k"
    unfolding ascii_toLowerCase_def by (rule map_eq_append3)
next
  assume "\<exists>before part after. s = before @ part @ after \<and>
      ascii_toLowerCase part = ascii_toLowerCase k"
  then show "occurs_ignoring_case ascii_toLowerCase k s"
    unfolding occurs_ignoring_case_def ascii_toLowerCase_def by fastforce
qed

lemma matchesKeywords_iff:
  "matchesKeywords lower ks j \<longleftrightarrow>
     (\<exists>k\<in>set ks. occurs_ignoring_case lower k (title j @ '' '' @ department j))"
  by (simp add: matchesKeywords_def searchText_def list_ex_iff includes_lower_iff)

section \<open>Sorting with a comparison function\<close>

lemma mset_insert_by: "mset (insert_by cmp x xs) = add_mset x (mset xs)"
  by (induction xs) auto

lemma mset_array_sort: "mset (array_sort cmp xs) = mset xs"
  unfolding array_sort_def by (induction xs) (auto simp: mset_insert_by)

lemma set_insert_by: "set (insert_by cmp x xs) = insert x (set xs)"
  by (induction xs) auto

lemma sorted_insert_by:
  assumes total: "\<And>a b. cmp a b \<le> 0 \<or> cmp b a \<le> 0"
    and trans: "\<And>a b d. cmp a b \<le> 0 \<Longrightarrow> cmp b d \<le> 0 \<Longrightarrow> cmp a d \<le> 0"
    and sorted: "sorted_wrt (\<lambda>a b. cmp a b \<le> 0) xs"
  shows "sorted_wrt (\<lambda>a b. cmp a b \<le> 0) (insert_by cmp x xs)"
  using sorted
proof (induction xs)
  case Nil
  then show ?case by simp
next
  case (Cons y ys)
  show ?case
  proof (cases "cmp x y \<le> 0")
    case True
    with Cons.prems trans show ?thesis by auto
  next
    case False
    with total have "cmp y x \<le> 0" by blast
    with False Cons show ?thesis by (auto simp: set_insert_by)
  qed
qed

lemma sorted_array_sort:
  assumes total: "\<And>a b. cmp a b \<le> 0 \<or> cmp b a \<le> 0"
    and trans: "\<And>a b d. cmp a b \<le> 0 \<Longrightarrow> cmp b d \<le> 0 \<Longrightarrow> cmp a d \<le> 0"
  shows "sorted_wrt (\<lambda>a b. cmp a b \<le> 0) (array_sort cmp xs)"
  unfolding array_sort_def
proof (induction xs)
  case Nil
  show ?case by simp
next
  case (Cons x xs)
  from total trans Cons show ?case
    by (simp add: sorted_insert_by)
qed

lemma sorted_wrt_determined:
  assumes "sorted_wrt R xs" and "sorted_wrt R ys" and "mset xs = mset ys"
    and "\<And>a b. a \<in> set xs \<Longrightarrow> b \<in> set xs \<Longrightarrow> R a b \<Longrightarrow> R b a \<Longrightarrow> a = b"
  shows "xs = ys"
  using assms
proof (induction xs arbitrary: ys)
  case Nil
  then show ?case by simp
next
  case (Cons x xs)
  from Cons.prems(3) obtain y ys' where ys: "ys = y # ys'"
    by (cases ys) auto
  have sets: "set (x # xs) = set ys"
    using Cons.prems(3) by (metis set_mset_mset)
  have "x = y"
  proof (rule ccontr)
    assume neq: "x \<noteq> y"
    with sets ys have "x \<in> set ys'" and "y \<in> set xs" by auto
    with Cons.prems(1,2) ys have "R y x" and "R x y" by auto
    with Cons.prems(4) [of x y] sets ys have "x = y" by auto
    with neq show False by contradiction
  qed
  with Cons.prems(3) ys have m: "mset xs = mset ys'" by simp
  have "xs = ys'"
    using Cons.IH [of ys'] Cons.prems(1,2,4) ys m by auto
  with \<open>x = y\<close> ys show ?case by simp
qed

lemma array_sort_mset_cong:
  assumes total: "\<And>a b. cmp a b \<le> 0 \<or> cmp b a \<le> 0"
    and trans: "\<And>a b d. cmp a b \<le> 0 \<Longrightarrow> cmp b d \<le> 0 \<Longrightarrow> cmp a d \<le> 0"
    and antisym: "\<And>a b. a \<in> set xs \<Longrightarrow> b \<in> set xs \<Longrightarrow> cmp a b \<le> 0 \<Longrightarrow> cmp b a \<le> 0 \<Longrightarrow> a = b"
    and perm: "mset ys = mset xs"
  shows "array_sort cmp ys = array_sort cmp xs"
proof (rule sorted_wrt_determined [where R = "\<lambda>a b. cmp a b \<le> 0"])
  show "sorted_wrt (\<lambda>a b. cmp a b \<le> 0) (array_sort cmp ys)"
    by (rule sorted_array_sort [OF total trans])
  show "sorted_wrt (\<lambda>a b. cmp a b \<le> 0) (array_sort cmp xs)"
    by (rule sorted_array_sort [OF total trans])
  show "mset (array_sort cmp ys) = mset (array_sort cmp xs)"
    by (simp add: mset_array_sort perm)
  fix a b
  assume "a \<in> set (array_sort cmp ys)" and "b \<in> set (array_sort cmp ys)"
  then have "a \<in> set xs" and "b \<in> set xs"
    by (metis mset_array_sort perm set_mset_mset)+
  then show "cmp a b \<le> 0 \<Longrightarrow> cmp b a \<le> 0 \<Longrightarrow> a = b"
    by (rule antisym)
qed

lemma consistent_total: "consistent cmp \<Longrightarrow> cmp a b \<le> 0 \<or> cmp b a \<le> 0"
  unfolding consistent_def by (metis linorder_not_less order_less_imp_le)

lemma consistent_trans: "consistent cmp \<Longrightarrow> cmp a b \<le> 0 \<Longrightarrow> cmp b c \<le> 0 \<Longrightarrow> cmp a c \<le> 0"
  unfolding consistent_def by blast

lemma consistent_zero: "consistent cmp \<Longrightarrow> cmp a b \<le> 0 \<Longrightarrow> cmp b a \<le> 0 \<Longrightarrow> cmp a b = 0"
  unfolding consistent_def by (metis linorder_not_less order_le_less)

lemma jobsString_permuted:
  assumes c: "consistent localeCompare"
    and ties: "\<forall>a\<in>set jobs. \<forall>b\<in>set jobs.
        localeCompare (link a) (link b) = 0 \<longrightarrow> canonical_of a = canonical_of b"
    and perm: "mset jobs' = mset jobs"
  shows "jobsString localeCompare jobs' = jobsString localeCompare jobs"
proof -
  have "array_sort (by_link localeCompare) (map canonical_of jobs') =
        array_sort (by_link localeCompare) (map canonical_of jobs)"
  proof (rule array_sort_mset_cong)
    show "by_link localeCompare a b \<le> 0 \<or> by_link localeCompare b a \<le> 0" for a b
      unfolding by_link_def by (rule consistent_total [OF c])
    show "by_link localeCompare a b \<le> 0 \<Longrightarrow> by_link localeCompare b d \<le> 0 \<Longrightarrow>
          by_link localeCompare a d \<le> 0" for a b d
      unfolding by_link_def by (rule consistent_trans [OF c])
    show "mset (map canonical_of jobs') = mset (map canonical_of jobs)"
      using perm by simp
    fix a b
    assume "a \<in> set (map canonical_of jobs)" and "b \<in> set (map canonical_of jobs)"
      and "by_link localeCompare a b \<le> 0" and "by_link localeCompare b a \<le> 0"
    then obtain ja jb where "ja \<in> set jobs" "jb \<in> set jobs" "a = canonical_of ja"
        "b = canonical_of jb" "localeCompare (link ja) (link jb) = 0"
      using consistent_zero [OF c] by (auto simp: by_link_def canonical_of_def)
    with ties show "a = b" by blast
  qed
  then show ?thesis by (simp add: jobsString_def)
qed

lemma compare_raw_flip: "(compare_raw a b < 0) = (0 < compare_raw b a)"
  by (induction a b rule: compare_raw.induct) auto

lemma compare_raw_trans:
  "compare_raw a b \<le> 0 \<Longrightarrow> compare_raw b c \<le> 0 \<Longrightarrow> compare_raw a c \<le> 0"
proof (induction a b arbitrary: c rule: compare_raw.induct)
  case 1
  then show ?case by simp
next
  case (2 y ys)
  then show ?case by (cases c) simp_all
next
  case (3 x xs)
  then show ?case by simp
next
  case (4 x xs y ys)
  show ?case
  proof (cases c)
    case Nil
    with "4.prems"(2) show ?thesis by simp
  next
    case (Cons z zs)
    define nx ny nz where "nx = (of_char x :: nat)" and "ny = (of_char y :: nat)"
      and "nz = (of_char z :: nat)"
    from "4.prems"(1) have xy: "nx < ny \<or> (nx = ny \<and> compare_raw xs ys \<le> 0)"
      unfolding nx_def ny_def by (simp split: if_splits)
    from "4.prems"(2) Cons have yz: "ny < nz \<or> (ny = nz \<and> compare_raw ys zs \<le> 0)"
      unfolding ny_def nz_def by (simp split: if_splits)
    show ?thesis
    proof (cases "nx < nz")
      case True
      with Cons show ?thesis unfolding nx_def nz_def by simp
    next
      case False
      with xy yz have eq: "nx = ny" "ny = nz" and le: "compare_raw xs ys \<le> 0"
          "compare_raw ys zs \<le> 0"
        by auto
      from eq have "\<not> nx < ny" "\<not> ny < nx" by auto
      then have "compare_raw xs zs \<le> 0"
        using "4.IH" [of zs] le unfolding nx_def ny_def by blast
      with eq Cons show ?thesis unfolding nx_def ny_def nz_def by simp
    qed
  qed
qed


lemma consistent_compare_raw: "consistent compare_raw"
  unfolding consistent_def using compare_raw_flip compare_raw_trans by blast

section \<open>The digest is a hexadecimal string\<close>







lemma canonical_of_scraped_at: "canonical_of (j\<lparr>scraped_at := t\<rparr>) = canonical_of j"
  by (simp add: canonical_of_def)

section \<open>Keyword filtering: the claims\<close>

text \<open>
  C3, as the specification words it, takes the text searched to be the concatenation of
  \<open>title\<close> and \<open>department\<close>. The code puts a space between the two. For the keyword
  \<open>Database\<close> and a record with title \<open>Data\<close> and department \<open>Base Platform\<close> the keyword
  occurs, without regard to case, in the concatenation \<open>DataBase Platform\<close>, yet the
  filter of the code selects nothing, because it searches \<open>data base platform\<close>. All
  the strings are ASCII.
\<close>

theorem C3_concatenation_counterexample:
  "filterJobsByKeywords ascii_toLowerCase
     [\<lparr>title = ''Data'', link = ''https://careers.airbnb.com/positions/1/'',
       department = ''Base Platform'', location = ''Bangalore, India'',
       scraped_at = ''2024-01-01T00:00:00.000Z''\<rparr>]
     (Some [''Database'']) = [] \<and>
   shouldSend (shouldSendEmail ascii_toLowerCase
     [\<lparr>title = ''Data'', link = ''https://careers.airbnb.com/positions/1/'',
       department = ''Base Platform'', location = ''Bangalore, India'',
       scraped_at = ''2024-01-01T00:00:00.000Z''\<rparr>]
     (Some [''Database''])) = False \<and>
   occurs_ignoring_case ascii_toLowerCase ''Database'' (''Data'' @ ''Base Platform'')"
proof -
  have "includes_str (ascii_toLowerCase (''Data'' @ ''Base Platform''))
      (ascii_toLowerCase ''Database'')"
    by (simp add: ascii_toLowerCase_def lower_char_def)
  then have "occurs_ignoring_case ascii_toLowerCase ''Database'' (''Data'' @ ''Base Platform'')"
    by (simp only: includes_lower_iff)
  moreover have "filterJobsByKeywords ascii_toLowerCase
     [\<lparr>title = ''Data'', link = ''https://careers.airbnb.com/positions/1/'',
       department = ''Base Platform'', location = ''Bangalore, India'',
       scraped_at = ''2024-01-01T00:00:00.000Z''\<rparr>]
     (Some [''Database'']) = []"
    by (simp add: filterJobsByKeywords_def matchesKeywords_def searchText_def
        ascii_toLowerCase_def lower_char_def)
  moreover have "shouldSend (shouldSendEmail ascii_toLowerCase
     [\<lparr>title = ''Data'', link = ''https://careers.airbnb.com/positions/1/'',
       department = ''Base Platform'', location = ''Bangalore, India'',
       scraped_at = ''2024-01-01T00:00:00.000Z''\<rparr>]
     (Some [''Database''])) = False"
    by (simp add: shouldSendEmail_def matchesKeywords_def searchText_def
        ascii_toLowerCase_def lower_char_def)
  ultimately show ?thesis by blast
qed

text \<open>
  C3, amended. Whatever the \<^verbatim>\<open>toLowerCase\<close> of the host, with a non-empty keyword
  list \<^verbatim>\<open>filterJobsByKeywords\<close> and \<^verbatim>\<open>shouldSendEmail\<close> select, in their input
  order, exactly the records for which at least one keyword occurs, without regard to
  case, as a substring of the title, one space and the department: the keyword in lower
  case is a contiguous part of that text in lower case. \<^verbatim>\<open>shouldSendEmail\<close> says to
  send when the selection is not empty. With an empty or absent keyword list every
  record is selected.
\<close>

theorem C3_keyword_filter:
  assumes "ks \<noteq> []"
  shows "filterJobsByKeywords toLowerCase jobs (Some ks) =
           filter (\<lambda>j. \<exists>k\<in>set ks.
             \<exists>before after. toLowerCase (title j @ '' '' @ department j) =
               before @ toLowerCase k @ after) jobs \<and>
         filterJobsByKeywords toLowerCase jobs (Some ks) =
           filter (\<lambda>j. \<exists>k\<in>set ks.
             occurs_ignoring_case toLowerCase k (title j @ '' '' @ department j)) jobs \<and>
         matchingJobs (shouldSendEmail toLowerCase jobs (Some ks)) =
           filter (\<lambda>j. \<exists>k\<in>set ks.
             occurs_ignoring_case toLowerCase k (title j @ '' '' @ department j)) jobs \<and>
         shouldSend (shouldSendEmail toLowerCase jobs (Some ks)) =
           (\<exists>j\<in>set jobs. \<exists>k\<in>set ks.
              occurs_ignoring_case toLowerCase k (title j @ '' '' @ department j)) \<and>
         filterJobsByKeywords toLowerCase jobs (Some []) = jobs \<and>
         filterJobsByKeywords toLowerCase jobs None = jobs \<and>
         matchingJobs (shouldSendEmail toLowerCase jobs (Some [])) = jobs \<and>
         matchingJobs (shouldSendEmail toLowerCase jobs None) = jobs \<and>
         shouldSend (shouldSendEmail toLowerCase jobs (Some [])) \<and>
         shouldSend (shouldSendEmail toLowerCase jobs None)"
proof -
  have sel: "matchesKeywords toLowerCase ks =
      (\<lambda>j. \<exists>k\<in>set ks. occurs_ignoring_case toLowerCase k (title j @ '' '' @ department j))"
    by (rule ext) (rule matchesKeywords_iff)
  have a: "filterJobsByKeywords toLowerCase jobs (Some ks) =
      filter (matchesKeywords toLowerCase ks) jobs"
    using assms by (simp add: filterJobsByKeywords_def)
  have b: "matchingJobs (shouldSendEmail toLowerCase jobs (Some ks)) =
      filter (matchesKeywords toLowerCase ks) jobs"
    using assms by (simp add: shouldSendEmail_def Let_def)
  have c: "shouldSend (shouldSendEmail toLowerCase jobs (Some ks)) =
      (\<exists>j\<in>set jobs. matchesKeywords toLowerCase ks j)"
    using assms by (auto simp: shouldSendEmail_def Let_def filter_empty_conv)
  have d: "filterJobsByKeywords toLowerCase jobs (Some []) = jobs \<and>
      filterJobsByKeywords toLowerCase jobs None = jobs"
    by (simp add: filterJobsByKeywords_def)
  have e: "matchingJobs (shouldSendEmail toLowerCase jobs (Some [])) = jobs \<and>
      matchingJobs (shouldSendEmail toLowerCase jobs None) = jobs \<and>
      shouldSend (shouldSendEmail toLowerCase jobs (Some [])) \<and>
      shouldSend (shouldSendEmail toLowerCase jobs None)"
    by (simp add: shouldSendEmail_def)
  have f: "filterJobsByKeywords toLowerCase jobs (Some ks) =
      filter (\<lambda>j. \<exists>k\<in>set ks.
        \<exists>before after. toLowerCase (title j @ '' '' @ department j) =
          before @ toLowerCase k @ after) jobs"
    unfolding a sel occurs_ignoring_case_def by (rule refl)
  from a b c d e f show ?thesis
    unfolding sel by blast
qed

text \<open>
  The example of the specification: the keyword \<open>Backend\<close> over a Backend Engineer and a
  Designer selects the first record only; the empty keyword list selects both.
\<close>

theorem C3_keyword_filter_witness:
  "[''Backend''] \<noteq> [] \<and>
   filterJobsByKeywords ascii_toLowerCase
     [\<lparr>title = ''Backend Engineer'', link = ''https://careers.airbnb.com/positions/1/'',
       department = ''Engineering'', location = ''Bangalore, India'',
       scraped_at = ''2024-01-01T00:00:00.000Z''\<rparr>,
      \<lparr>title = ''Designer'', link = ''https://careers.airbnb.com/positions/2/'',
       department = ''Engineering'', location = ''Bangalore, India'',
       scraped_at = ''2024-01-01T00:00:00.000Z''\<rparr>]
     (Some [''Backend'']) =
   filter (\<lambda>j. \<exists>k\<in>set [''Backend''].
             occurs_ignoring_case ascii_toLowerCase k (title j @ '' '' @ department j))
     [\<lparr>title = ''Backend Engineer'', link = ''https://careers.airbnb.com/positions/1/'',
       department = ''Engineering'', location = ''Bangalore, India'',
       scraped_at = ''2024-01-01T00:00:00.000Z''\<rparr>,
      \<lparr>title = ''Designer'', link = ''https://careers.airbnb.com/positions/2/'',
       department = ''Engineering'', location = ''Bangalore, India'',
       scraped_at = ''2024-01-01T00:00:00.000Z''\<rparr>] \<and>
   filterJobsByKeywords ascii_toLowerCase
     [\<lparr>title = ''Backend Engineer'', link = ''https://careers.airbnb.com/positions/1/'',
       department = ''Engineering'', location = ''Bangalore, India'',
       scraped_at = ''2024-01-01T00:00:00.000Z''\<rparr>,
      \<lparr>title = ''Designer'', link = ''https://careers.airbnb.com/positions/2/'',
       department = ''Engineering'', location = ''Bangalore, India'',
       scraped_at = ''2024-01-01T00:00:00.000Z''\<rparr>]
     (Some [''Backend'']) =
     [\<lparr>title = ''Backend Engineer'', link = ''https://careers.airbnb.com/positions/1/'',
       department = ''Engineering'', location = ''Bangalore, India'',
       scraped_at = ''2024-01-01T00:00:00.000Z''\<rparr>] \<and>
   matchingJobs (shouldSendEmail ascii_toLowerCase
     [\<lparr>title = ''Backend Engineer'', link = ''https://careers.airbnb.com/positions/1/'',
       department = ''Engineering'', location = ''Bangalore, India'',
       scraped_at = ''2024-01-01T00:00:00.000Z''\<rparr>,
      \<lparr>title = ''Designer'', link = ''https://careers.airbnb.com/positions/2/'',
       department = ''Engineering'', location = ''Bangalore, India'',
       scraped_at = ''2024-01-01T00:00:00.000Z''\<rparr>]
     (Some [''Backend''])) =
     [\<lparr>title = ''Backend Engineer'', link = ''https://careers.airbnb.com/positions/1/'',
       department = ''Engineering'', location = ''Bangalore, India'',
       scraped_at = ''2024-01-01T00:00:00.000Z''\<rparr>] \<and>
   filterJobsByKeywords ascii_toLowerCase
     [\<lparr>title = ''Backend Engineer'', link = ''https://careers.airbnb.com/positions/1/'',
       department = ''Engineering'', location = ''Bangalore, India'',
       scraped_at = ''2024-01-01T00:00:00.000Z''\<rparr>,
      \<lparr>title = ''Designer'', link = ''https://careers.airbnb.com/positions/2/'',
       department = ''Engineering'', location = ''Bangalore, India'',
       scraped_at = ''2024-01-01T00:00:00.000Z''\<rparr>]
     (Some []) =
     [\<lparr>title = ''Backend Engineer'', link = ''https://careers.airbnb.com/positions/1/'',
       department = ''Engineering'', location = ''Bangalore, India'',
       scraped_at = ''2024-01-01T00:00:00.000Z''\<rparr>,
      \<lparr>title = ''Designer'', link = ''https://careers.airbnb.com/positions/2/'',
       department = ''Engineering'', location = ''Bangalore, India'',
       scraped_at = ''2024-01-01T00:00:00.000Z''\<rparr>]"
proof -
  let ?backend = "\<lparr>title = ''Backend Engineer'',
      link = ''https://careers.airbnb.com/positions/1/'',
      department = ''Engineering'', location = ''Bangalore, India'',
      scraped_at = ''2024-01-01T00:00:00.000Z''\<rparr>"
  let ?designer = "\<lparr>title = ''Designer'', link = ''https://careers.airbnb.com/positions/2/'',
      department = ''Engineering'', location = ''Bangalore, India'',
      scraped_at = ''2024-01-01T00:00:00.000Z''\<rparr>"
  have ne: "[''Backend''] \<noteq> []" by simp
  have ev: "filterJobsByKeywords ascii_toLowerCase [?backend, ?designer] (Some [''Backend'']) =
      [?backend]"
    by (simp add: filterJobsByKeywords_def matchesKeywords_def searchText_def
        ascii_toLowerCase_def lower_char_def)
  note t = C3_keyword_filter [OF ne, of ascii_toLowerCase "[?backend, ?designer]"]
  from t have 1: "filterJobsByKeywords ascii_toLowerCase [?backend, ?designer]
      (Some [''Backend'']) =
      filter (\<lambda>j. \<exists>k\<in>set [''Backend''].
        occurs_ignoring_case ascii_toLowerCase k (title j @ '' '' @ department j))
        [?backend, ?designer]"
    by (rule conjunct1 [OF conjunct2])
  from t have 2: "matchingJobs (shouldSendEmail ascii_toLowerCase [?backend, ?designer]
      (Some [''Backend''])) =
      filter (\<lambda>j. \<exists>k\<in>set [''Backend''].
        occurs_ignoring_case ascii_toLowerCase k (title j @ '' '' @ department j))
        [?backend, ?designer]"
    by (rule conjunct1 [OF conjunct2 [OF conjunct2]])
  from t have 3: "filterJobsByKeywords ascii_toLowerCase [?backend, ?designer] (Some []) =
      [?backend, ?designer]"
    by (rule conjunct1 [OF conjunct2 [OF conjunct2 [OF conjunct2 [OF conjunct2]]]])
  from 1 2 ev have 4: "matchingJobs (shouldSendEmail ascii_toLowerCase [?backend, ?designer]
      (Some [''Backend''])) = [?backend]"
    by (simp only:)
  show ?thesis
    by (intro conjI) (rule ne 1 ev 4 3)+
qed

section \<open>The fanout: the claims\<close>

lemma awaited_sinks:
  "map fst (awaited (sendNotifications cfg t w jobs)) =
     filter (enabled cfg) [Email, Discord, Telegram, Webhook, FileLog]"
  by (simp add: sendNotifications_def allSettled_def enabled_def)

lemma awaited_run_sink:
  "(s, r) \<in> set (awaited (sendNotifications cfg t w jobs)) \<Longrightarrow> r = run_sink cfg t w jobs s"
  by (auto simp: sendNotifications_def allSettled_def run_sink_def split: if_splits)

lemma run_sink_own_io:
  "import_ok w' s = import_ok w s \<Longrightarrow> delivery_ok w' s = delivery_ok w s \<Longrightarrow>
   run_sink cfg t w' jobs s = run_sink cfg t w jobs s"
  by (cases s)
    (simp_all add: run_sink_def sendEmailNotification_def sendDiscordNotification_def
      sendTelegramNotification_def sendWebhookNotification_def logToFile_def deliver_def)

lemma completion_fulfilled: "completion (sendNotifications cfg t w jobs) = fulfilled"
  by (simp add: sendNotifications_def allSettled_def)

lemma returned_nothing: "returned (sendNotifications cfg t w jobs) = None"
  by (simp add: sendNotifications_def Let_def)

lemma console_block:
  "console_lines (sendNotifications cfg t w jobs) =
     (if console_enabled cfg then Some jobs else None)"
  by (simp add: sendNotifications_def Let_def)

lemma run_sink_rejected:
  "(settlement (run_sink cfg t w jobs s) = rejected) =
   (action (run_sink cfg t w jobs s) = import_failed)"
  by (cases s)
    (simp_all add: run_sink_def sendEmailNotification_def sendDiscordNotification_def
      sendTelegramNotification_def sendWebhookNotification_def logToFile_def deliver_def)

lemma enabled_sinks_count:
  "length (filter (enabled cfg) [Email, Discord, Telegram, Webhook, FileLog]) +
     (if console_enabled cfg then 1 else 0) = length (enabled_sinks cfg)"
  by (simp add: enabled_sinks_def all_sinks_def enabled_def)

text \<open>
  C4 (fanout isolation). For every list of records, configuration and outside world:
  \<^item> a promise is pushed and awaited for every enabled sink among e-mail, Discord,
    Telegram, webhook and file log, in this order, whatever the other sinks do (nothing
    stops at the first failure);
  \<^item> what is awaited for a sink is what that sink does when it runs alone;
  \<^item> what a sink does depends on the outside world only through its own import and its
    own delivery call, so the failure of another sink neither prevents nor alters it;
  \<^item> the console block prints the whole list when the console is enabled;
  \<^item> the promise of \<^verbatim>\<open>sendNotifications\<close> is fulfilled: nothing is thrown.
\<close>

theorem C4_fanout_isolation:
  "map fst (awaited (sendNotifications cfg t w jobs)) =
     filter (enabled cfg) [Email, Discord, Telegram, Webhook, FileLog] \<and>
   (\<forall>s r. (s, r) \<in> set (awaited (sendNotifications cfg t w jobs)) \<longrightarrow>
      r = run_sink cfg t w jobs s) \<and>
   (\<forall>s w'. import_ok w' s = import_ok w s \<and> delivery_ok w' s = delivery_ok w s \<longrightarrow>
      run_sink cfg t w' jobs s = run_sink cfg t w jobs s) \<and>
   console_lines (sendNotifications cfg t w jobs) =
     (if console_enabled cfg then Some jobs else None) \<and>
   completion (sendNotifications cfg t w jobs) = fulfilled"
proof (intro conjI allI impI)
  show "map fst (awaited (sendNotifications cfg t w jobs)) =
      filter (enabled cfg) [Email, Discord, Telegram, Webhook, FileLog]"
    by (rule awaited_sinks)
  show "r = run_sink cfg t w jobs s"
    if "(s, r) \<in> set (awaited (sendNotifications cfg t w jobs))" for s r
    using that by (rule awaited_run_sink)
  show "run_sink cfg t w' jobs s = run_sink cfg t w jobs s"
    if "import_ok w' s = import_ok w s \<and> delivery_ok w' s = delivery_ok w s" for s w'
    by (rule run_sink_own_io) (simp_all add: that)
  show "console_lines (sendNotifications cfg t w jobs) =
      (if console_enabled cfg then Some jobs else None)"
    by (rule console_block)
  show "completion (sendNotifications cfg t w jobs) = fulfilled"
    by (rule completion_fulfilled)
qed

text \<open>
  The example of the specification: three sinks, the second of which fails. Discord and
  the webhook deliver, Telegram logs its error, all three promises are fulfilled, and
  Discord and the webhook do what they do when Telegram works.
\<close>

theorem C4_fanout_isolation_witness:
  "awaited (sendNotifications three_sinks False telegram_down [backend_job]) =
     [(Discord, \<lparr>settlement = fulfilled,
         action = delivered (discord_embed 1 [discord_field_of backend_job])\<rparr>),
      (Telegram, \<lparr>settlement = fulfilled,
         action = delivery_error_logged (telegram_text 1 [backend_job])\<rparr>),
      (Webhook, \<lparr>settlement = fulfilled,
         action = delivered (webhook_body [backend_job] 1)\<rparr>)] \<and>
   run_sink three_sinks False telegram_down [backend_job] Discord =
     run_sink three_sinks False all_up [backend_job] Discord \<and>
   run_sink three_sinks False telegram_down [backend_job] Webhook =
     run_sink three_sinks False all_up [backend_job] Webhook \<and>
   completion (sendNotifications three_sinks False telegram_down [backend_job]) = fulfilled"
proof -
  note iso = C4_fanout_isolation [of three_sinks False all_up "[backend_job]"]
  have d: "import_ok telegram_down Discord = import_ok all_up Discord \<and>
      delivery_ok telegram_down Discord = delivery_ok all_up Discord"
    by (simp add: telegram_down_def all_up_def)
  have h: "import_ok telegram_down Webhook = import_ok all_up Webhook \<and>
      delivery_ok telegram_down Webhook = delivery_ok all_up Webhook"
    by (simp add: telegram_down_def all_up_def)
  from iso d have 1: "run_sink three_sinks False telegram_down [backend_job] Discord =
      run_sink three_sinks False all_up [backend_job] Discord"
    by blast
  from iso h have 2: "run_sink three_sinks False telegram_down [backend_job] Webhook =
      run_sink three_sinks False all_up [backend_job] Webhook"
    by blast
  have 3: "awaited (sendNotifications three_sinks False telegram_down [backend_job]) =
     [(Discord, \<lparr>settlement = fulfilled,
         action = delivered (discord_embed 1 [discord_field_of backend_job])\<rparr>),
      (Telegram, \<lparr>settlement = fulfilled,
         action = delivery_error_logged (telegram_text 1 [backend_job])\<rparr>),
      (Webhook, \<lparr>settlement = fulfilled,
         action = delivered (webhook_body [backend_job] 1)\<rparr>)]"
    by (simp add: three_sinks_def telegram_down_def sendNotifications_def allSettled_def
        sendDiscordNotification_def sendTelegramNotification_def sendWebhookNotification_def
        deliver_def truthy_def)
  from C4_fanout_isolation [of three_sinks False telegram_down "[backend_job]"]
  have 4: "completion (sendNotifications three_sinks False telegram_down [backend_job]) =
      fulfilled"
    by blast
  from 1 2 3 4 show ?thesis by blast
qed

text \<open>
  C5, as the specification words it, has the fanout return one outcome for each enabled
  sink. With no environment variable set the console is the one enabled sink; the
  fanout prints to it inline, awaits no promise at all, and returns nothing.
\<close>

theorem C5_console_only_counterexample:
  "enabled_sinks console_only = [Console] \<and>
   awaited (sendNotifications console_only False all_up [backend_job]) = [] \<and>
   returned (sendNotifications console_only False all_up [backend_job]) = None"
  by (simp add: enabled_sinks_def all_sinks_def enabled_def console_only_def
      sendNotifications_def allSettled_def)

text \<open>
  C5, amended. For every configuration the fanout awaits exactly one promise for each
  enabled sink among e-mail, Discord, Telegram, webhook and file log, in this order, and
  none for a disabled sink or for the console (which is printed inline): the number of
  promises is the number of enabled sinks less one when the console is enabled. A
  promise is rejected only when the dynamic import of its sink failed; a failed delivery
  is caught and logged inside the sink, whose promise is then fulfilled. The outcomes
  are not returned: \<^verbatim>\<open>sendNotifications\<close> resolves to \<^verbatim>\<open>undefined\<close>, and it never
  throws.
\<close>

theorem C5_fanout_entries:
  "map fst (awaited (sendNotifications cfg t w jobs)) =
     filter (enabled cfg) [Email, Discord, Telegram, Webhook, FileLog] \<and>
   length (awaited (sendNotifications cfg t w jobs)) +
     (if console_enabled cfg then 1 else 0) = length (enabled_sinks cfg) \<and>
   (\<forall>(s, r)\<in>set (awaited (sendNotifications cfg t w jobs)).
      (settlement r = rejected) = (action r = import_failed)) \<and>
   returned (sendNotifications cfg t w jobs) = None \<and>
   completion (sendNotifications cfg t w jobs) = fulfilled"
proof (intro conjI)
  show a: "map fst (awaited (sendNotifications cfg t w jobs)) =
      filter (enabled cfg) [Email, Discord, Telegram, Webhook, FileLog]"
    by (rule awaited_sinks)
  have "length (awaited (sendNotifications cfg t w jobs)) =
      length (filter (enabled cfg) [Email, Discord, Telegram, Webhook, FileLog])"
    using arg_cong [OF a, of length] by simp
  then show "length (awaited (sendNotifications cfg t w jobs)) +
      (if console_enabled cfg then 1 else 0) = length (enabled_sinks cfg)"
    using enabled_sinks_count [of cfg] by simp
  show "\<forall>(s, r)\<in>set (awaited (sendNotifications cfg t w jobs)).
      (settlement r = rejected) = (action r = import_failed)"
    using awaited_run_sink [of _ _ cfg t w jobs] run_sink_rejected [of cfg t w jobs]
    by blast
  show "returned (sendNotifications cfg t w jobs) = None"
    by (rule returned_nothing)
  show "completion (sendNotifications cfg t w jobs) = fulfilled"
    by (rule completion_fulfilled)
qed

theorem C5_fanout_entries_witness:
  "map fst (awaited (sendNotifications three_sinks False telegram_down [backend_job])) =
     [Discord, Telegram, Webhook] \<and>
   length (awaited (sendNotifications three_sinks False telegram_down [backend_job])) = 3 \<and>
   length (enabled_sinks three_sinks) = 3 \<and>
   map (\<lambda>(s, r). settlement r)
     (awaited (sendNotifications three_sinks False telegram_down [backend_job])) =
     [fulfilled, fulfilled, fulfilled] \<and>
   returned (sendNotifications three_sinks False telegram_down [backend_job]) = None"
  using C5_fanout_entries [of three_sinks False telegram_down "[backend_job]"]
  by (simp add: enabled_sinks_def all_sinks_def enabled_def three_sinks_def telegram_down_def
      sendNotifications_def allSettled_def sendDiscordNotification_def
      sendTelegramNotification_def sendWebhookNotification_def deliver_def truthy_def)

lemma discord_attempt:
  "attempted (sendDiscordNotification cfg w jobs) =
     (if discord_enabled cfg \<and> truthy (discord_webhookUrl cfg) \<and> import_ok w Discord
      then Some (discord_embed (length jobs) (map discord_field_of (take 10 jobs)))
      else None)"
  by (simp add: sendDiscordNotification_def deliver_def attempted_def)

lemma email_attempt:
  "attempted (sendEmailNotification cfg t w jobs) =
     (if t \<and> truthy (email_to cfg) then Some (mail_options (length jobs) jobs) else None)"
  by (simp add: sendEmailNotification_def deliver_def attempted_def)

lemma telegram_attempt:
  "attempted (sendTelegramNotification cfg w jobs) =
     (if telegram_enabled cfg \<and> truthy (telegram_botToken cfg) \<and>
         truthy (telegram_chatId cfg) \<and> import_ok w Telegram
      then Some (telegram_text (length jobs) jobs) else None)"
  by (simp add: sendTelegramNotification_def deliver_def attempted_def)

lemma webhook_attempt:
  "attempted (sendWebhookNotification cfg w jobs) =
     (if webhook_enabled cfg \<and> truthy (webhook_url cfg) \<and> import_ok w Webhook
      then Some (webhook_body jobs (length jobs)) else None)"
  by (simp add: sendWebhookNotification_def deliver_def attempted_def)

lemma fileLog_attempt:
  "attempted (logToFile cfg w jobs) =
     (if fileLog_enabled cfg then Some (log_line (length jobs) jobs) else None)"
  by (simp add: logToFile_def deliver_def attempted_def)

text \<open>
  C10 (the Discord embed). The Discord sink reaches its delivery call exactly when it is
  enabled, has a webhook URL and its import resolves; the embed it then posts reports
  the full number of new records in its description and carries one field for each of
  the first ten records, in their order, and none for a later record. Each of the other
  sinks hands over the complete list whenever it reaches its delivery call: e-mail
  (with a transporter and a recipient), Telegram (enabled, with token and chat, import
  resolved), the webhook (enabled, with a URL, import resolved) and the file log
  (enabled); the console, when enabled, prints the complete list.
\<close>

theorem C10_discord_first_ten:
  "attempted (sendDiscordNotification cfg w jobs) =
     (if discord_enabled cfg \<and> truthy (discord_webhookUrl cfg) \<and> import_ok w Discord
      then Some (discord_embed (length jobs) (map discord_field_of (take 10 jobs)))
      else None) \<and>
   map discord_field_of (take 10 jobs) = take 10 (map discord_field_of jobs) \<and>
   length (map discord_field_of (take 10 jobs)) = min 10 (length jobs) \<and>
   attempted (sendEmailNotification cfg t w jobs) =
     (if t \<and> truthy (email_to cfg) then Some (mail_options (length jobs) jobs) else None) \<and>
   attempted (sendTelegramNotification cfg w jobs) =
     (if telegram_enabled cfg \<and> truthy (telegram_botToken cfg) \<and>
         truthy (telegram_chatId cfg) \<and> import_ok w Telegram
      then Some (telegram_text (length jobs) jobs) else None) \<and>
   attempted (sendWebhookNotification cfg w jobs) =
     (if webhook_enabled cfg \<and> truthy (webhook_url cfg) \<and> import_ok w Webhook
      then Some (webhook_body jobs (length jobs)) else None) \<and>
   attempted (logToFile cfg w jobs) =
     (if fileLog_enabled cfg then Some (log_line (length jobs) jobs) else None) \<and>
   console_lines (sendNotifications cfg t w jobs) =
     (if console_enabled cfg then Some jobs else None)"
proof (intro conjI)
  show "attempted (sendDiscordNotification cfg w jobs) =
     (if discord_enabled cfg \<and> truthy (discord_webhookUrl cfg) \<and> import_ok w Discord
      then Some (discord_embed (length jobs) (map discord_field_of (take 10 jobs)))
      else None)"
    by (rule discord_attempt)
  show "map discord_field_of (take 10 jobs) = take 10 (map discord_field_of jobs)"
    by (simp add: take_map)
  show "length (map discord_field_of (take 10 jobs)) = min 10 (length jobs)"
    by (simp add: min.commute)
  show "attempted (sendEmailNotification cfg t w jobs) =
     (if t \<and> truthy (email_to cfg) then Some (mail_options (length jobs) jobs) else None)"
    by (rule email_attempt)
  show "attempted (sendTelegramNotification cfg w jobs) =
     (if telegram_enabled cfg \<and> truthy (telegram_botToken cfg) \<and>
         truthy (telegram_chatId cfg) \<and> import_ok w Telegram
      then Some (telegram_text (length jobs) jobs) else None)"
    by (rule telegram_attempt)
  show "attempted (sendWebhookNotification cfg w jobs) =
     (if webhook_enabled cfg \<and> truthy (webhook_url cfg) \<and> import_ok w Webhook
      then Some (webhook_body jobs (length jobs)) else None)"
    by (rule webhook_attempt)
  show "attempted (logToFile cfg w jobs) =
     (if fileLog_enabled cfg then Some (log_line (length jobs) jobs) else None)"
    by (rule fileLog_attempt)
  show "console_lines (sendNotifications cfg t w jobs) =
     (if console_enabled cfg then Some jobs else None)"
    by (rule console_block)
qed

text \<open>
  Eleven new records, every sink enabled and working: the embed counts eleven and has
  the fields of the first ten records, the eleventh is not among them, and the e-mail,
  the Telegram message, the webhook body, the line of the file log and the console
  carry all eleven.
\<close>

theorem C10_discord_first_ten_witness:
  "length eleven_postings = 11 \<and>
   attempted (sendDiscordNotification every_sink all_up eleven_postings) =
     Some (discord_embed 11 (map discord_field_of (take 10 eleven_postings))) \<and>
   length (map discord_field_of (take 10 eleven_postings)) = 10 \<and>
   discord_field_of (posting ''Engineer 11'' ''https://careers.airbnb.com/positions/11/'') \<notin>
     set (map discord_field_of (take 10 eleven_postings)) \<and>
   attempted (sendEmailNotification every_sink True all_up eleven_postings) =
     Some (mail_options 11 eleven_postings) \<and>
   attempted (sendTelegramNotification every_sink all_up eleven_postings) =
     Some (telegram_text 11 eleven_postings) \<and>
   attempted (sendWebhookNotification every_sink all_up eleven_postings) =
     Some (webhook_body eleven_postings 11) \<and>
   attempted (logToFile every_sink all_up eleven_postings) =
     Some (log_line 11 eleven_postings) \<and>
   console_lines (sendNotifications every_sink True all_up eleven_postings) =
     Some eleven_postings"
proof -
  have n: "length eleven_postings = 11"
    by (simp add: eleven_postings_def)
  have c: "discord_enabled every_sink" "truthy (discord_webhookUrl every_sink)"
      "truthy (email_to every_sink)" "telegram_enabled every_sink"
      "truthy (telegram_botToken every_sink)" "truthy (telegram_chatId every_sink)"
      "webhook_enabled every_sink" "truthy (webhook_url every_sink)"
      "fileLog_enabled every_sink" "console_enabled every_sink"
    by (simp_all add: every_sink_def truthy_def)
  have w: "import_ok all_up Discord" "import_ok all_up Telegram" "import_ok all_up Webhook"
    by (simp_all add: all_up_def)
  have last: "discord_field_of
      (posting ''Engineer 11'' ''https://careers.airbnb.com/positions/11/'') \<notin>
      set (map discord_field_of (take 10 eleven_postings))"
    by (simp add: eleven_postings_def posting_def discord_field_of_def)
  from C10_discord_first_ten [of every_sink all_up eleven_postings True] n c w last
  show ?thesis by simp
qed

section \<open>The identity-set cycle: the claims\<close>

text \<open>
  C2 (identity-set strategy). For every scraped sequence and every previous identity
  set, in enhanced-scraper.js and in the archived scraper.js alike. Let the new records
  be the records of the scrape whose link is not in the previous set, in their order.
  \<^item> When there is none, nothing is handed to any sink and the set is left as it was.
  \<^item> Otherwise \<^verbatim>\<open>sendNotifications\<close> (in scraper.js, \<^verbatim>\<open>sendEmailNotification\<close>) is
    called once, with exactly the new records, and the set becomes the set of all links
    of the scrape, replacing the previous one.
  \<^item> In the terms of the specification, the run is \<open>spec_detect_identity\<close>.
\<close>

theorem C2_identity_set:
  "checkForNewJobs cfg t w (Inr current) previous =
     (if filter (\<lambda>j. link j \<notin> previous) current = []
      then \<lparr>toNotify = None, sending = None, previousJobs = previous\<rparr>
      else \<lparr>toNotify = Some (filter (\<lambda>j. link j \<notin> previous) current),
            sending = Some (sendNotifications cfg t w (filter (\<lambda>j. link j \<notin> previous) current)),
            previousJobs = set (map link current)\<rparr>) \<and>
   checkForNewJobs_basic ok (Inr current) previous =
     (if filter (\<lambda>j. link j \<notin> previous) current = []
      then \<lparr>mailed = None, basic_previousJobs = previous\<rparr>
      else \<lparr>mailed = Some (mail_options (length (filter (\<lambda>j. link j \<notin> previous) current))
                (filter (\<lambda>j. link j \<notin> previous) current), ok),
            basic_previousJobs = set (map link current)\<rparr>) \<and>
   detection_of (toNotify (checkForNewJobs cfg t w (Inr current) previous))
     (previousJobs (checkForNewJobs cfg t w (Inr current) previous)) =
     spec_detect_identity current previous \<and>
   detection_of (handed_over (checkForNewJobs_basic ok (Inr current) previous))
     (basic_previousJobs (checkForNewJobs_basic ok (Inr current) previous)) =
     spec_detect_identity current previous"
proof -
  have full: "checkForNewJobs cfg t w (Inr current) previous =
     (if filter (\<lambda>j. link j \<notin> previous) current = []
      then \<lparr>toNotify = None, sending = None, previousJobs = previous\<rparr>
      else \<lparr>toNotify = Some (filter (\<lambda>j. link j \<notin> previous) current),
            sending = Some (sendNotifications cfg t w (filter (\<lambda>j. link j \<notin> previous) current)),
            previousJobs = set (map link current)\<rparr>)"
  proof (cases "current = []")
    case True
    then show ?thesis by (simp add: checkForNewJobs_def)
  next
    case False
    then show ?thesis
      by (simp add: checkForNewJobs_def Let_def completion_fulfilled)
  qed
  have basic: "checkForNewJobs_basic ok (Inr current) previous =
     (if filter (\<lambda>j. link j \<notin> previous) current = []
      then \<lparr>mailed = None, basic_previousJobs = previous\<rparr>
      else \<lparr>mailed = Some (mail_options (length (filter (\<lambda>j. link j \<notin> previous) current))
                (filter (\<lambda>j. link j \<notin> previous) current), ok),
            basic_previousJobs = set (map link current)\<rparr>)"
    by (simp add: checkForNewJobs_basic_def Let_def)
  have d1: "detection_of (toNotify (checkForNewJobs cfg t w (Inr current) previous))
     (previousJobs (checkForNewJobs cfg t w (Inr current) previous)) =
     spec_detect_identity current previous"
    unfolding full by (simp add: detection_of_def spec_detect_identity_def Let_def)
  have d2: "detection_of (handed_over (checkForNewJobs_basic ok (Inr current) previous))
     (basic_previousJobs (checkForNewJobs_basic ok (Inr current) previous)) =
     spec_detect_identity current previous"
    unfolding basic
    by (simp add: detection_of_def spec_detect_identity_def handed_over_def Let_def)
  from full basic d1 d2 show ?thesis by (intro conjI)
qed

text \<open>
  The example of the specification: previous = {A, B} and current = [A, B, C] give
  Changed([C], {A, B, C}), and the fanout (here the console alone) receives C and
  nothing else. The scrape [A, B] changes nothing and reaches no sink. After a scrape of
  C alone, A and B are forgotten.
\<close>

theorem C2_identity_set_witness:
  "checkForNewJobs console_only False all_up
     (Inr [posting ''A'' ''https://careers.airbnb.com/positions/a/'',
           posting ''B'' ''https://careers.airbnb.com/positions/b/'',
           posting ''C'' ''https://careers.airbnb.com/positions/c/''])
     {''https://careers.airbnb.com/positions/a/'', ''https://careers.airbnb.com/positions/b/''} =
     \<lparr>toNotify = Some [posting ''C'' ''https://careers.airbnb.com/positions/c/''],
      sending = Some
        \<lparr>console_lines = Some [posting ''C'' ''https://careers.airbnb.com/positions/c/''],
         awaited = [], completion = fulfilled, returned = None\<rparr>,
      previousJobs =
        {''https://careers.airbnb.com/positions/a/'', ''https://careers.airbnb.com/positions/b/'',
         ''https://careers.airbnb.com/positions/c/''}\<rparr> \<and>
   spec_detect_identity
     [posting ''A'' ''https://careers.airbnb.com/positions/a/'',
      posting ''B'' ''https://careers.airbnb.com/positions/b/'',
      posting ''C'' ''https://careers.airbnb.com/positions/c/'']
     {''https://careers.airbnb.com/positions/a/'', ''https://careers.airbnb.com/positions/b/''} =
     Changed [posting ''C'' ''https://careers.airbnb.com/positions/c/'']
       {''https://careers.airbnb.com/positions/a/'', ''https://careers.airbnb.com/positions/b/'',
        ''https://careers.airbnb.com/positions/c/''} \<and>
   checkForNewJobs_basic True
     (Inr [posting ''A'' ''https://careers.airbnb.com/positions/a/'',
           posting ''B'' ''https://careers.airbnb.com/positions/b/'',
           posting ''C'' ''https://careers.airbnb.com/positions/c/''])
     {''https://careers.airbnb.com/positions/a/'', ''https://careers.airbnb.com/positions/b/''} =
     \<lparr>mailed = Some (mail_options 1 [posting ''C'' ''https://careers.airbnb.com/positions/c/''],
        True),
      basic_previousJobs =
        {''https://careers.airbnb.com/positions/a/'', ''https://careers.airbnb.com/positions/b/'',
         ''https://careers.airbnb.com/positions/c/''}\<rparr> \<and>
   checkForNewJobs console_only False all_up
     (Inr [posting ''A'' ''https://careers.airbnb.com/positions/a/'',
           posting ''B'' ''https://careers.airbnb.com/positions/b/''])
     {''https://careers.airbnb.com/positions/a/'', ''https://careers.airbnb.com/positions/b/''} =
     \<lparr>toNotify = None, sending = None,
      previousJobs =
        {''https://careers.airbnb.com/positions/a/'',
         ''https://careers.airbnb.com/positions/b/''}\<rparr> \<and>
   previousJobs (checkForNewJobs console_only False all_up
     (Inr [posting ''C'' ''https://careers.airbnb.com/positions/c/''])
     {''https://careers.airbnb.com/positions/a/'', ''https://careers.airbnb.com/positions/b/''}) =
     {''https://careers.airbnb.com/positions/c/''}"
proof -
  let ?a = "posting ''A'' ''https://careers.airbnb.com/positions/a/''"
  let ?b = "posting ''B'' ''https://careers.airbnb.com/positions/b/''"
  let ?c = "posting ''C'' ''https://careers.airbnb.com/positions/c/''"
  let ?prev = "{''https://careers.airbnb.com/positions/a/'',
                ''https://careers.airbnb.com/positions/b/''}"
  let ?all = "{''https://careers.airbnb.com/positions/a/'',
               ''https://careers.airbnb.com/positions/b/'',
               ''https://careers.airbnb.com/positions/c/''}"
  have new: "filter (\<lambda>j. link j \<notin> ?prev) [?a, ?b, ?c] = [?c]"
      "filter (\<lambda>j. link j \<notin> ?prev) [?a, ?b] = []"
      "filter (\<lambda>j. link j \<notin> ?prev) [?c] = [?c]"
    by (simp_all add: posting_def)
  have links: "set (map link [?a, ?b, ?c]) = ?all"
      "set (map link [?c]) = {''https://careers.airbnb.com/positions/c/''}"
    by (simp_all add: posting_def)
  have fan: "sendNotifications console_only False all_up [?c] =
      \<lparr>console_lines = Some [?c], awaited = [], completion = fulfilled, returned = None\<rparr>"
    by (simp add: sendNotifications_def allSettled_def console_only_def)
  have spec: "spec_detect_identity [?a, ?b, ?c] ?prev = Changed [?c] ?all"
    unfolding spec_detect_identity_def Let_def new links by simp
  from C2_identity_set [of console_only False all_up "[?a, ?b, ?c]" ?prev True]
  have 1: "checkForNewJobs console_only False all_up (Inr [?a, ?b, ?c]) ?prev =
      \<lparr>toNotify = Some [?c],
       sending = Some \<lparr>console_lines = Some [?c], awaited = [], completion = fulfilled,
         returned = None\<rparr>,
       previousJobs = ?all\<rparr>"
    and 2: "checkForNewJobs_basic True (Inr [?a, ?b, ?c]) ?prev =
      \<lparr>mailed = Some (mail_options 1 [?c], True), basic_previousJobs = ?all\<rparr>"
    unfolding new links fan by simp_all
  from C2_identity_set [of console_only False all_up "[?a, ?b]" ?prev True]
  have 3: "checkForNewJobs console_only False all_up (Inr [?a, ?b]) ?prev =
      \<lparr>toNotify = None, sending = None, previousJobs = ?prev\<rparr>"
    unfolding new by simp
  from C2_identity_set [of console_only False all_up "[?c]" ?prev True]
  have 4: "previousJobs (checkForNewJobs console_only False all_up (Inr [?c]) ?prev) =
      {''https://careers.airbnb.com/positions/c/''}"
    unfolding new links by simp
  show ?thesis
    by (intro conjI) (rule 1 spec 2 3 4)+
qed

section \<open>The empty scrape\<close>

lemma files_logActivity:
  "hashFile (logActivity e fs) = hashFile fs \<and> jobsFile (logActivity e fs) = jobsFile fs"
  by (simp add: logActivity_def Let_def)

lemma kv_put_log:
  "jobs_hash (put_log e st) = jobs_hash st \<and> latest_jobs (put_log e st) = latest_jobs st"
  by (simp add: put_log_def Let_def)

lemma node_empty:
  assumes "scraped cyc = Inr []"
  shows "checkForJobs lc cyc fs =
    \<lparr>branch = no_jobs_found, alert = None, files = logActivity scrape_completed_warning fs\<rparr>"
  using assms by (simp add: checkForJobs_def)

lemma worker_empty:
  assumes "fetched env = Inr []"
  shows "checkForJobs_worker lc env store =
    \<lparr>result = No_jobs_found, worker_alert = None, kv = store\<rparr>"
  using assms by (simp add: checkForJobs_worker_def)

text \<open>
  C6 (empty scrape guard). Whenever the scrape returns no record, every scraper ends its
  cycle there: the Node scraper sends no alert and leaves the hash file and the jobs file
  as they were (it appends a warning to its activity log, nothing else); the Worker
  sends no alert and leaves its store untouched; the identity-set scrapers hand nothing
  to any sink and keep the previous identity set.
\<close>

theorem C6_empty_scrape_guard:
  assumes "scraped cyc = Inr []" and "fetched env = Inr []"
  shows "branch (checkForJobs lc cyc fs) = no_jobs_found \<and>
         alert (checkForJobs lc cyc fs) = None \<and>
         hashFile (files (checkForJobs lc cyc fs)) = hashFile fs \<and>
         jobsFile (files (checkForJobs lc cyc fs)) = jobsFile fs \<and>
         files (checkForJobs lc cyc fs) = logActivity scrape_completed_warning fs \<and>
         checkForJobs_worker lc env store =
           \<lparr>result = No_jobs_found, worker_alert = None, kv = store\<rparr> \<and>
         checkForNewJobs cfg t w (Inr []) previous =
           \<lparr>toNotify = None, sending = None, previousJobs = previous\<rparr> \<and>
         checkForNewJobs_basic ok (Inr []) previous =
           \<lparr>mailed = None, basic_previousJobs = previous\<rparr>"
  using assms
  by (simp add: node_empty worker_empty files_logActivity checkForNewJobs_def
      checkForNewJobs_basic_def)

theorem C6_empty_scrape_guard_witness:
  "scraped (node_cycle_of [] mail_up) = Inr [] \<and>
   fetched (worker_env_of [] (Some ''key'') mail_up) = Inr [] \<and>
   alert (checkForJobs compare_raw (node_cycle_of [] mail_up)
     \<lparr>hashFile = Some ''0f'', jobsFile = Some [], logFile = []\<rparr>) = None \<and>
   files (checkForJobs compare_raw (node_cycle_of [] mail_up)
     \<lparr>hashFile = Some ''0f'', jobsFile = Some [], logFile = []\<rparr>) =
     \<lparr>hashFile = Some ''0f'', jobsFile = Some [], logFile = [scrape_completed_warning]\<rparr> \<and>
   checkForJobs_worker compare_raw (worker_env_of [] (Some ''key'') mail_up) empty_store =
     \<lparr>result = No_jobs_found, worker_alert = None, kv = empty_store\<rparr> \<and>
   previousJobs (checkForNewJobs console_only False all_up (Inr [])
     {''https://careers.airbnb.com/positions/a/''}) =
     {''https://careers.airbnb.com/positions/a/''}"
proof -
  have a: "scraped (node_cycle_of [] mail_up) = Inr []"
    by (simp add: node_cycle_of_def)
  have b: "fetched (worker_env_of [] (Some ''key'') mail_up) = Inr []"
    by (simp add: worker_env_of_def)
  have c: "logActivity scrape_completed_warning
      \<lparr>hashFile = Some ''0f'', jobsFile = Some [], logFile = []\<rparr> =
      \<lparr>hashFile = Some ''0f'', jobsFile = Some [], logFile = [scrape_completed_warning]\<rparr>"
    by (simp add: logActivity_def)
  from C6_empty_scrape_guard [OF a b, of compare_raw
      "\<lparr>hashFile = Some ''0f'', jobsFile = Some [], logFile = []\<rparr>" empty_store
      console_only False all_up "{''https://careers.airbnb.com/positions/a/''}" True]
    a b c
  show ?thesis by simp
qed

section \<open>The content-hash cycle: the claims\<close>

lemma shouldSend_iff:
  "jobs \<noteq> [] \<Longrightarrow>
   shouldSend (shouldSendEmail lower jobs (Some ks)) =
     (filterJobsByKeywords lower jobs (Some ks) \<noteq> [])"
  by (simp add: shouldSendEmail_def filterJobsByKeywords_def Let_def)

lemma matchingJobs_eq:
  "shouldSend (shouldSendEmail lower jobs (Some ks)) \<Longrightarrow>
   matchingJobs (shouldSendEmail lower jobs (Some ks)) = filterJobsByKeywords lower jobs (Some ks)"
  by (simp add: shouldSendEmail_def filterJobsByKeywords_def Let_def split: if_splits)

lemma files_saved:
  "hashFile (saveJobs wj jobs (saveHash wh h fs)) = (if wh then Some h else hashFile fs) \<and>
   jobsFile (saveJobs wj jobs (saveHash wh h fs)) = (if wj then Some jobs else jobsFile fs)"
  by (simp add: saveHash_def saveJobs_def)


text \<open>
  When the digest of a scrape differs from the stored one, the Node scraper writes the
  new digest and the records on every path, whether a record matches the keywords or
  not and whatever \<^verbatim>\<open>sendJobAlert\<close> answers; a file whose write is rejected keeps
  what it held.
\<close>

lemma node_changed:
  assumes "scraped cyc = Inr jobs" and "jobs \<noteq> []"
    and "loadPreviousHash fs \<noteq> Some (generateJobsHash lc jobs)"
  shows "hashFile (files (checkForJobs lc cyc fs)) =
      (if hashFile_written cyc then Some (generateJobsHash lc jobs) else hashFile fs)"
    and "jobsFile (files (checkForJobs lc cyc fs)) =
      (if jobsFile_written cyc then Some jobs else jobsFile fs)"
  using assms
  by (auto simp: checkForJobs_def Let_def files_saved files_logActivity)

lemma node_no_match:
  assumes "scraped cyc = Inr jobs" and "jobs \<noteq> []"
    and "loadPreviousHash fs \<noteq> Some (generateJobsHash lc jobs)"
    and "filterJobsByKeywords (node_toLowerCase cyc) jobs (Some (scraping_keywords cyc)) = []"
  shows "branch (checkForJobs lc cyc fs) = no_email"
    and "alert (checkForJobs lc cyc fs) = None"
  using assms shouldSend_iff [of jobs "node_toLowerCase cyc" "scraping_keywords cyc"]
  by (auto simp: checkForJobs_def Let_def)

lemma node_match:
  assumes "scraped cyc = Inr jobs" and "jobs \<noteq> []"
    and "loadPreviousHash fs \<noteq> Some (generateJobsHash lc jobs)"
    and "filterJobsByKeywords (node_toLowerCase cyc) jobs (Some (scraping_keywords cyc)) \<noteq> []"
  shows "branch (checkForJobs lc cyc fs) = jobs_processed"
    and "alert (checkForJobs lc cyc fs) =
      (if emailService cyc
       then Some (sendJobAlert (node_toLowerCase cyc) (mailslurp cyc)
              (filterJobsByKeywords (node_toLowerCase cyc) jobs (Some (scraping_keywords cyc)))
              (scraping_keywords cyc))
       else None)"
  using assms shouldSend_iff [of jobs "node_toLowerCase cyc" "scraping_keywords cyc"]
    matchingJobs_eq [of "node_toLowerCase cyc" jobs "scraping_keywords cyc"]
  by (auto simp: checkForJobs_def Let_def)

lemma kv_caught:
  "jobs_hash (kv (caught env sent err st)) = jobs_hash st \<and>
   latest_jobs (kv (caught env sent err st)) = latest_jobs st \<and>
   result (caught env sent err st) = Failure err \<and>
   worker_alert (caught env sent err st) = sent"
  by (simp add: caught_def kv_put_log)

lemma put_state_resolved:
  assumes "storage_error env put_jobs_hash = None" and "storage_error env put_latest_jobs = None"
  shows "put_state env h jobs st = Inr (st\<lparr>jobs_hash := Some h, latest_jobs := Some jobs\<rparr>)"
  using assms by (simp add: put_state_def)


text \<open>
  The Worker, when no record matches, writes the new digest and the records, provided
  that the KV namespace takes the calls.
\<close>

lemma worker_no_match:
  assumes "fetched env = Inr jobs" and "jobs \<noteq> []"
    and "storage_error env get_jobs_hash = None"
    and "storage_error env put_jobs_hash = None" and "storage_error env put_latest_jobs = None"
    and "jobs_hash store \<noteq> Some (generateJobsHash lc jobs)"
    and "filterJobsByKeywords (worker_toLowerCase env) jobs (Some (JOB_KEYWORDS env)) = []"
  shows "result (checkForJobs_worker lc env store) = No_matching_jobs_found"
    and "worker_alert (checkForJobs_worker lc env store) = None"
    and "jobs_hash (kv (checkForJobs_worker lc env store)) = Some (generateJobsHash lc jobs)"
    and "latest_jobs (kv (checkForJobs_worker lc env store)) = Some jobs"
  using assms by (auto simp: checkForJobs_worker_def Let_def put_state_resolved)

text \<open>
  The Worker, when records match and its e-mail service can be constructed (or is not
  asked for), hands them to \<^verbatim>\<open>sendJobAlert\<close> and then writes the new digest and the
  records, whatever \<^verbatim>\<open>sendJobAlert\<close> answered.
\<close>

lemma worker_match:
  assumes "fetched env = Inr jobs" and "jobs \<noteq> []"
    and "storage_error env get_jobs_hash = None"
    and "storage_error env put_jobs_hash = None" and "storage_error env put_latest_jobs = None"
    and "jobs_hash store \<noteq> Some (generateJobsHash lc jobs)"
    and "filterJobsByKeywords (worker_toLowerCase env) jobs (Some (JOB_KEYWORDS env)) \<noteq> []"
    and "\<not> EMAIL_ENABLED env \<or> \<not> truthy (EMAIL_RECEIVER env) \<or> truthy (MAILSLURP_API_KEY env)"
  shows "worker_alert (checkForJobs_worker lc env store) =
      (if EMAIL_ENABLED env \<and> truthy (EMAIL_RECEIVER env)
       then Some (sendJobAlert (worker_toLowerCase env) (mailslurp_api env)
              (filterJobsByKeywords (worker_toLowerCase env) jobs (Some (JOB_KEYWORDS env)))
              (JOB_KEYWORDS env))
       else None)"
    and "jobs_hash (kv (checkForJobs_worker lc env store)) = Some (generateJobsHash lc jobs)"
    and "latest_jobs (kv (checkForJobs_worker lc env store)) = Some jobs"
  using assms
  by (auto simp: checkForJobs_worker_def Let_def save_and_log_def put_state_resolved
      kv_caught kv_put_log split: option.splits)

text \<open>
  The Worker, when records match, e-mail is enabled, a receiver is set and
  \<^verbatim>\<open>MAILSLURP_API_KEY\<close> is not: the constructor throws, and nothing is written but
  the error in the log.
\<close>

lemma worker_no_key:
  assumes "fetched env = Inr jobs" and "jobs \<noteq> []"
    and "storage_error env get_jobs_hash = None"
    and "jobs_hash store \<noteq> Some (generateJobsHash lc jobs)"
    and "filterJobsByKeywords (worker_toLowerCase env) jobs (Some (JOB_KEYWORDS env)) \<noteq> []"
    and "EMAIL_ENABLED env" and "truthy (EMAIL_RECEIVER env)"
    and "\<not> truthy (MAILSLURP_API_KEY env)"
  shows "result (checkForJobs_worker lc env store) =
      Failure ''MAILSLURP_API_KEY is required in environment variables''"
    and "worker_alert (checkForJobs_worker lc env store) = None"
    and "jobs_hash (kv (checkForJobs_worker lc env store)) = jobs_hash store"
    and "latest_jobs (kv (checkForJobs_worker lc env store)) = latest_jobs store"
  using assms by (auto simp: checkForJobs_worker_def Let_def kv_caught)

lemma backend_matches:
  "filterJobsByKeywords ascii_toLowerCase [backend_job] (Some [''Software'', ''Backend'']) =
     [backend_job]"
  by (simp add: filterJobsByKeywords_def matchesKeywords_def searchText_def
      ascii_toLowerCase_def lower_char_def backend_job_def posting_def)

lemma backend_later_matches:
  "filterJobsByKeywords ascii_toLowerCase [backend_job_later]
     (Some [''Software'', ''Backend'']) = [backend_job_later]"
  by (simp add: filterJobsByKeywords_def matchesKeywords_def searchText_def
      ascii_toLowerCase_def lower_char_def backend_job_later_def backend_job_def posting_def)

lemma designer_matches_not:
  "filterJobsByKeywords ascii_toLowerCase [designer_job] (Some [''Software'', ''Backend'']) = []"
  by (simp add: filterJobsByKeywords_def matchesKeywords_def searchText_def
      ascii_toLowerCase_def lower_char_def designer_job_def posting_def)

lemma generateJobsHash_canonical:
  "map canonical_of jobs' = map canonical_of jobs \<Longrightarrow>
   generateJobsHash lc jobs' = generateJobsHash lc jobs"
  by (simp add: generateJobsHash_def jobsString_def)

lemma backend_later_hash:
  "generateJobsHash lc [backend_job_later] = generateJobsHash lc [backend_job]"
  by (rule generateJobsHash_canonical) (simp add: backend_job_later_def canonical_of_def)


lemma worker_env_of_fields:
  "fetched (worker_env_of jobs k api) = Inr jobs"
  "JOB_KEYWORDS (worker_env_of jobs k api) = [''Software'', ''Backend'']"
  "EMAIL_ENABLED (worker_env_of jobs k api)"
  "EMAIL_RECEIVER (worker_env_of jobs k api) = Some ''me@example.org''"
  "MAILSLURP_API_KEY (worker_env_of jobs k api) = k"
  "mailslurp_api (worker_env_of jobs k api) = api"
  "worker_toLowerCase (worker_env_of jobs k api) = ascii_toLowerCase"
  "storage_error (worker_env_of jobs k api) c = None"
  by (simp_all add: worker_env_of_def)

lemma truthy_simps:
  "truthy None = False"
  "truthy (Some s) = (s \<noteq> [])"
  by (simp_all add: truthy_def)

lemma backend_job_fields:
  "title backend_job = ''Backend Engineer''"
  "link backend_job = ''https://careers.airbnb.com/positions/1/''"
  by (simp_all add: backend_job_def posting_def)


text \<open>
  The run of the Worker on one changed record that matches a keyword, with e-mail
  enabled, a receiver, a KV namespace that takes every call, and no API key.
\<close>

lemma no_key_run:
  "checkForJobs_worker lc (worker_env_of [backend_job] None api) empty_store =
     \<lparr>result = Failure ''MAILSLURP_API_KEY is required in environment variables'',
      worker_alert = None,
      kv = \<lparr>jobs_hash = None, latest_jobs = None,
            activity_logs =
              [error_entry ''MAILSLURP_API_KEY is required in environment variables'']\<rparr>\<rparr>"
  by (simp add: checkForJobs_worker_def worker_env_of_fields backend_matches empty_store_def
      caught_def put_log_def truthy_simps Let_def)

text \<open>The same run with the API key set, whether the mail provider delivers or not.\<close>

lemma key_run:
  "checkForJobs_worker lc (worker_env_of [backend_job] (Some ''key'') api) empty_store =
     \<lparr>result = Jobs_processed_successfully [backend_job],
      worker_alert = Some (if send_ok api \<and> inbox_ok api then alert_sent else alert_failed),
      kv = \<lparr>jobs_hash = Some (generateJobsHash lc [backend_job]),
            latest_jobs = Some [backend_job],
            activity_logs =
              [jobs_found 1 1 (take 12 (generateJobsHash lc [backend_job]))
                 [(''Backend Engineer'', ''https://careers.airbnb.com/positions/1/'')]]\<rparr>\<rparr>"
  by (simp add: checkForJobs_worker_def worker_env_of_fields backend_matches empty_store_def
      save_and_log_def put_state_def put_log_def truthy_simps Let_def sendJobAlert_def
      backend_job_fields)

text \<open>
  C7. The claim has the new digest persisted whenever the digest of the scrape differs
  from the stored one, whether a record matches the keywords or not. One path of the
  Worker does not do so. On the input
  \<^item> scrape: the one record \<open>backend_job\<close>, which matches the keyword \<open>Backend\<close>;
  \<^item> store: empty;
  \<^item> environment: e-mail enabled, a receiver set, \<^verbatim>\<open>MAILSLURP_API_KEY\<close> not set;
  \<^verbatim>\<open>new WorkerEmailService(env)\<close> throws inside the \<^verbatim>\<open>try\<close> of \<^verbatim>\<open>checkForJobs\<close>,
  before the two \<^verbatim>\<open>JOB_STORAGE.put\<close> calls: the run answers with the error, and
  neither the digest nor the records are stored. The paths beside it store them: the
  Worker on a record that matches no keyword (with the same environment), the Worker
  with the key set, and the Node scraper without an e-mail service.
\<close>

theorem C7_worker_missing_api_key:
  "filterJobsByKeywords ascii_toLowerCase [backend_job] (Some [''Software'', ''Backend'']) =
     [backend_job] \<and>
   jobs_hash empty_store \<noteq> Some (generateJobsHash collate_letters [backend_job]) \<and>
   checkForJobs_worker collate_letters (worker_env_of [backend_job] None mail_up) empty_store =
     \<lparr>result = Failure ''MAILSLURP_API_KEY is required in environment variables'',
      worker_alert = None,
      kv = \<lparr>jobs_hash = None, latest_jobs = None,
            activity_logs =
              [error_entry ''MAILSLURP_API_KEY is required in environment variables'']\<rparr>\<rparr> \<and>
   checkForJobs_worker collate_letters (worker_env_of [designer_job] None mail_up) empty_store =
     \<lparr>result = No_matching_jobs_found, worker_alert = None,
      kv = \<lparr>jobs_hash = Some (generateJobsHash collate_letters [designer_job]),
            latest_jobs = Some [designer_job], activity_logs = []\<rparr>\<rparr> \<and>
   jobs_hash (kv (checkForJobs_worker collate_letters
     (worker_env_of [backend_job] (Some ''key'') mail_up) empty_store)) =
     Some (generateJobsHash collate_letters [backend_job]) \<and>
   files (checkForJobs collate_letters
     ((node_cycle_of [backend_job] mail_up)\<lparr>emailService := False\<rparr>) no_files) =
     \<lparr>hashFile = Some (generateJobsHash collate_letters [backend_job]),
      jobsFile = Some [backend_job], logFile = []\<rparr>"
proof (intro conjI)
  show "filterJobsByKeywords ascii_toLowerCase [backend_job]
      (Some [''Software'', ''Backend'']) = [backend_job]"
    by (rule backend_matches)
  show "jobs_hash empty_store \<noteq> Some (generateJobsHash collate_letters [backend_job])"
    by (simp add: empty_store_def)
  show "checkForJobs_worker collate_letters (worker_env_of [backend_job] None mail_up)
      empty_store =
     \<lparr>result = Failure ''MAILSLURP_API_KEY is required in environment variables'',
      worker_alert = None,
      kv = \<lparr>jobs_hash = None, latest_jobs = None,
            activity_logs =
              [error_entry ''MAILSLURP_API_KEY is required in environment variables'']\<rparr>\<rparr>"
    by (rule no_key_run)
  show "checkForJobs_worker collate_letters (worker_env_of [designer_job] None mail_up)
      empty_store =
     \<lparr>result = No_matching_jobs_found, worker_alert = None,
      kv = \<lparr>jobs_hash = Some (generateJobsHash collate_letters [designer_job]),
            latest_jobs = Some [designer_job], activity_logs = []\<rparr>\<rparr>"
    by (simp add: checkForJobs_worker_def worker_env_of_fields designer_matches_not
        empty_store_def put_state_def Let_def)
  show "jobs_hash (kv (checkForJobs_worker collate_letters
      (worker_env_of [backend_job] (Some ''key'') mail_up) empty_store)) =
      Some (generateJobsHash collate_letters [backend_job])"
    by (simp add: key_run)
  show "files (checkForJobs collate_letters
      ((node_cycle_of [backend_job] mail_up)\<lparr>emailService := False\<rparr>) no_files) =
     \<lparr>hashFile = Some (generateJobsHash collate_letters [backend_job]),
      jobsFile = Some [backend_job], logFile = []\<rparr>"
    using backend_matches
    by (simp add: checkForJobs_def node_cycle_of_def no_files_def loadPreviousHash_def
        shouldSendEmail_def filterJobsByKeywords_def saveHash_def saveJobs_def Let_def)
qed

text \<open>
  C9. The claim has the new digest persisted after the notification attempt whether the
  attempt succeeded or failed, so that a later cycle over the identical record set sends
  nothing. In the Worker, on the input of C7 (one matching record, empty store, e-mail
  enabled, a receiver, no \<^verbatim>\<open>MAILSLURP_API_KEY\<close>), the attempt fails in the constructor
  of the e-mail service and the cycle ends before its \<^verbatim>\<open>JOB_STORAGE.put\<close> calls:
  \<^item> the first cycle answers with the error, sends nothing and stores no digest;
  \<^item> the next cycle, which scrapes the same record two days later, again finds a change
    and, the key now being set, sends the alert for it.
  Where the attempt fails in the delivery instead (key set, mail provider down), the
  same two cycles store the digest and then report no change, as the claim says.
\<close>

theorem C9_worker_renotified:
  "checkForJobs_worker collate_letters (worker_env_of [backend_job] None mail_up) empty_store =
     \<lparr>result = Failure ''MAILSLURP_API_KEY is required in environment variables'',
      worker_alert = None,
      kv = \<lparr>jobs_hash = None, latest_jobs = None,
            activity_logs =
              [error_entry ''MAILSLURP_API_KEY is required in environment variables'']\<rparr>\<rparr> \<and>
   map canonical_of [backend_job_later] = map canonical_of [backend_job] \<and>
   result (checkForJobs_worker collate_letters
     (worker_env_of [backend_job_later] (Some ''key'') mail_up)
     (kv (checkForJobs_worker collate_letters
        (worker_env_of [backend_job] None mail_up) empty_store))) =
     Jobs_processed_successfully [backend_job_later] \<and>
   worker_alert (checkForJobs_worker collate_letters
     (worker_env_of [backend_job_later] (Some ''key'') mail_up)
     (kv (checkForJobs_worker collate_letters
        (worker_env_of [backend_job] None mail_up) empty_store))) = Some alert_sent \<and>
   worker_alert (checkForJobs_worker collate_letters
     (worker_env_of [backend_job] (Some ''key'') mail_down) empty_store) = Some alert_failed \<and>
   jobs_hash (kv (checkForJobs_worker collate_letters
     (worker_env_of [backend_job] (Some ''key'') mail_down) empty_store)) =
     Some (generateJobsHash collate_letters [backend_job]) \<and>
   checkForJobs_worker collate_letters
     (worker_env_of [backend_job_later] (Some ''key'') mail_up)
     (kv (checkForJobs_worker collate_letters
        (worker_env_of [backend_job] (Some ''key'') mail_down) empty_store)) =
     \<lparr>result = No_changes_detected, worker_alert = None,
      kv = kv (checkForJobs_worker collate_letters
        (worker_env_of [backend_job] (Some ''key'') mail_down) empty_store)\<rparr>"
proof (intro conjI)
  let ?first = "checkForJobs_worker collate_letters
      (worker_env_of [backend_job] None mail_up) empty_store"
  let ?again = "checkForJobs_worker collate_letters
      (worker_env_of [backend_job_later] (Some ''key'') mail_up) (kv ?first)"
  let ?failed = "checkForJobs_worker collate_letters
      (worker_env_of [backend_job] (Some ''key'') mail_down) empty_store"
  show first: "?first =
     \<lparr>result = Failure ''MAILSLURP_API_KEY is required in environment variables'',
      worker_alert = None,
      kv = \<lparr>jobs_hash = None, latest_jobs = None,
            activity_logs =
              [error_entry ''MAILSLURP_API_KEY is required in environment variables'']\<rparr>\<rparr>"
    by (rule no_key_run)
  show "map canonical_of [backend_job_later] = map canonical_of [backend_job]"
    by (simp add: backend_job_later_def canonical_of_def)
  have again: "?again =
      save_and_log (worker_env_of [backend_job_later] (Some ''key'') mail_up)
        (Some alert_sent) (generateJobsHash collate_letters [backend_job_later])
        [backend_job_later] [backend_job_later] (kv ?first)"
    unfolding first
    by (simp add: checkForJobs_worker_def worker_env_of_fields backend_later_matches
        truthy_simps Let_def sendJobAlert_def mail_up_def)
  show "result ?again = Jobs_processed_successfully [backend_job_later]"
    unfolding again
    by (simp add: save_and_log_def put_state_def worker_env_of_fields)
  show "worker_alert ?again = Some alert_sent"
    unfolding again
    by (simp add: save_and_log_def put_state_def worker_env_of_fields)
  have failed: "?failed =
     \<lparr>result = Jobs_processed_successfully [backend_job],
      worker_alert = Some alert_failed,
      kv = \<lparr>jobs_hash = Some (generateJobsHash collate_letters [backend_job]),
            latest_jobs = Some [backend_job],
            activity_logs =
              [jobs_found 1 1 (take 12 (generateJobsHash collate_letters [backend_job]))
                 [(''Backend Engineer'', ''https://careers.airbnb.com/positions/1/'')]]\<rparr>\<rparr>"
    by (simp add: key_run mail_down_def)
  show "worker_alert ?failed = Some alert_failed"
    by (simp add: failed)
  show "jobs_hash (kv ?failed) = Some (generateJobsHash collate_letters [backend_job])"
    by (simp add: failed)
  show "checkForJobs_worker collate_letters
      (worker_env_of [backend_job_later] (Some ''key'') mail_up) (kv ?failed) =
      \<lparr>result = No_changes_detected, worker_alert = None, kv = kv ?failed\<rparr>"
    unfolding failed
    by (simp add: checkForJobs_worker_def worker_env_of_fields backend_later_hash Let_def)
qed


section \<open>Evaluating SHA-256\<close>

text \<open>
  The digests of a few concrete strings, computed by rewriting. The rules below replace
  the powers of two in the rotations by their values and step through the rounds on a
  window of sixteen words.
\<close>

lemma rotr_numerals:
  "rotr 2 x = x div 4 + x mod 4 * 1073741824"
  "rotr 6 x = x div 64 + x mod 64 * 67108864"
  "rotr 7 x = x div 128 + x mod 128 * 33554432"
  "rotr 11 x = x div 2048 + x mod 2048 * 2097152"
  "rotr 13 x = x div 8192 + x mod 8192 * 524288"
  "rotr 17 x = x div 131072 + x mod 131072 * 32768"
  "rotr 18 x = x div 262144 + x mod 262144 * 16384"
  "rotr 19 x = x div 524288 + x mod 524288 * 8192"
  "rotr 22 x = x div 4194304 + x mod 4194304 * 1024"
  "rotr 25 x = x div 33554432 + x mod 33554432 * 128"
  "shr 3 x = x div 8"
  "shr 10 x = x div 1024"
  by (simp_all add: rotr_def shr_def)

lemma round256_list:
  "round256 k w [a, b, c, d, e, f, g, h] =
     (let t1 = (h + Sigma1 e + Ch e f g + k + w) mod 4294967296;
          t2 = (Sigma0 a + Maj a b c) mod 4294967296
      in [add32 t1 t2, a, b, c, add32 d t1, e, f, g])"
  by (simp add: round256_def)

lemma rounds_window:
  "rounds (k # ks) [w0, w1, w2, w3, w4, w5, w6, w7, w8, w9, w10, w11, w12, w13, w14, w15] s =
   rounds ks
     [w1, w2, w3, w4, w5, w6, w7, w8, w9, w10, w11, w12, w13, w14, w15,
      (sigma1 w14 + w9 + sigma0 w1 + w0) mod 4294967296]
     (round256 k w0 s)"
  by (simp add: next_word_def)

lemmas sha_eval =
  compress_def round_constants_def round256_list rounds_window Let_def add32_def not32_def
  Sigma0_def Sigma1_def sigma0_def sigma1_def Ch_def Maj_def rotr_numerals

lemma upto8: "[0..<8] = [0, 1, 2, 3, 4, 5, 6, 7]"
  by (simp add: upt_rec)

lemma replicate_numeral: "replicate (numeral k) x = x # replicate (pred_numeral k) x"
  by (simp add: numeral_eq_Suc)

text \<open>The test vector of FIPS 180-4 for the message \<open>abc\<close>.\<close>

lemma abc_words:
  "be_words (pad (map of_char
     (''abc''))) =
     [1633837952, 0, 0, 0, 0, 0,
      0, 0, 0, 0, 0, 0,
      0, 0, 0, 24]"
  by (simp add: pad_def replicate_numeral upto8)

lemma abc_block1:
  "compress
     [1779033703, 3144134277, 1013904242, 2773480762, 1359893119, 2600822924,
      528734635, 1541459225]
     [1633837952, 0, 0, 0, 0, 0,
      0, 0, 0, 0, 0, 0,
      0, 0, 0, 24] =
     [3128432319, 2399260650, 1094795486, 1571693091, 2953011619, 2518121116,
      3021012833, 4060091821]"
  by (simp add: sha_eval del: rounds.simps(2))

lemma abc_digest:
  "sha256_hex
     (''abc'') =
     ''ba7816bf8f01cfea414140de5dae2223b00361a396177a9cb410ff61f20015ad''"
  unfolding sha256_hex_def sha256_def abc_words
  by (simp add: initial_hash_def abc_block1 hex32_def hexdigit_def upto8)

text \<open>The four serialisations used in the counterexamples below.\<close>

lemma twins_AB_words:
  "be_words (pad (map of_char
     (''[{'' @ [CHR 0x22] @ ''title'' @ [CHR 0x22] @ '':'' @ [CHR 0x22] @
     ''A'' @ [CHR 0x22] @ '','' @ [CHR 0x22] @ ''link'' @ [CHR 0x22] @
     '':'' @ [CHR 0x22] @ ''a'' @ [CHR 0x22] @ '','' @ [CHR 0x22] @
     ''department'' @ [CHR 0x22] @ '':'' @ [CHR 0x22] @ [CHR 0x22] @ '','' @
     [CHR 0x22] @ ''location'' @ [CHR 0x22] @ '':'' @ [CHR 0x22] @
     [CHR 0x22] @ ''},{'' @ [CHR 0x22] @ ''title'' @ [CHR 0x22] @ '':'' @
     [CHR 0x22] @ ''B'' @ [CHR 0x22] @ '','' @ [CHR 0x22] @ ''link'' @
     [CHR 0x22] @ '':'' @ [CHR 0x22] @ ''a'' @ [CHR 0x22] @ '','' @
     [CHR 0x22] @ ''department'' @ [CHR 0x22] @ '':'' @ [CHR 0x22] @
     [CHR 0x22] @ '','' @ [CHR 0x22] @ ''location'' @ [CHR 0x22] @ '':'' @
     [CHR 0x22] @ [CHR 0x22] @ ''}]''))) =
     [1534796404, 1769237605, 574235201, 573317740, 1768844066, 975331618,
      740451429, 1885434484, 1835363956, 574235170, 740453487, 1667331177,
      1869488698, 572685612, 2065855593, 1953260834, 975323682, 740453481,
      1852514874, 576791084, 577004912, 1634890861, 1701737506, 975315500,
      577531747, 1635019119, 1847736866, 578641280, 0, 0,
      0, 888]"
  by (simp add: pad_def replicate_numeral upto8)

lemma twins_AB_block1:
  "compress
     [1779033703, 3144134277, 1013904242, 2773480762, 1359893119, 2600822924,
      528734635, 1541459225]
     [1534796404, 1769237605, 574235201, 573317740, 1768844066, 975331618,
      740451429, 1885434484, 1835363956, 574235170, 740453487, 1667331177,
      1869488698, 572685612, 2065855593, 1953260834] =
     [2069168762, 3266423404, 2681120735, 52457525, 4111608442, 2583424929,
      2636447196, 3844728592]"
  by (simp add: sha_eval del: rounds.simps(2))

lemma twins_AB_block2:
  "compress
     [2069168762, 3266423404, 2681120735, 52457525, 4111608442, 2583424929,
      2636447196, 3844728592]
     [975323682, 740453481, 1852514874, 576791084, 577004912, 1634890861,
      1701737506, 975315500, 577531747, 1635019119, 1847736866, 578641280,
      0, 0, 0, 888] =
     [2275861991, 186845897, 3818878234, 3061484588, 689505652, 671780115,
      3869224896, 2959834364]"
  by (simp add: sha_eval del: rounds.simps(2))

lemma twins_AB_digest:
  "sha256_hex
     (''[{'' @ [CHR 0x22] @ ''title'' @ [CHR 0x22] @ '':'' @ [CHR 0x22] @
     ''A'' @ [CHR 0x22] @ '','' @ [CHR 0x22] @ ''link'' @ [CHR 0x22] @
     '':'' @ [CHR 0x22] @ ''a'' @ [CHR 0x22] @ '','' @ [CHR 0x22] @
     ''department'' @ [CHR 0x22] @ '':'' @ [CHR 0x22] @ [CHR 0x22] @ '','' @
     [CHR 0x22] @ ''location'' @ [CHR 0x22] @ '':'' @ [CHR 0x22] @
     [CHR 0x22] @ ''},{'' @ [CHR 0x22] @ ''title'' @ [CHR 0x22] @ '':'' @
     [CHR 0x22] @ ''B'' @ [CHR 0x22] @ '','' @ [CHR 0x22] @ ''link'' @
     [CHR 0x22] @ '':'' @ [CHR 0x22] @ ''a'' @ [CHR 0x22] @ '','' @
     [CHR 0x22] @ ''department'' @ [CHR 0x22] @ '':'' @ [CHR 0x22] @
     [CHR 0x22] @ '','' @ [CHR 0x22] @ ''location'' @ [CHR 0x22] @ '':'' @
     [CHR 0x22] @ [CHR 0x22] @ ''}]'') =
     ''87a6e5e70b230ac9e39f751ab67a8c2c29190574280a8d13e69fafc0b06b7cfc''"
  unfolding sha256_hex_def sha256_def twins_AB_words
  by (simp add: initial_hash_def twins_AB_block1 twins_AB_block2 hex32_def hexdigit_def upto8)

lemma twins_BA_words:
  "be_words (pad (map of_char
     (''[{'' @ [CHR 0x22] @ ''title'' @ [CHR 0x22] @ '':'' @ [CHR 0x22] @
     ''B'' @ [CHR 0x22] @ '','' @ [CHR 0x22] @ ''link'' @ [CHR 0x22] @
     '':'' @ [CHR 0x22] @ ''a'' @ [CHR 0x22] @ '','' @ [CHR 0x22] @
     ''department'' @ [CHR 0x22] @ '':'' @ [CHR 0x22] @ [CHR 0x22] @ '','' @
     [CHR 0x22] @ ''location'' @ [CHR 0x22] @ '':'' @ [CHR 0x22] @
     [CHR 0x22] @ ''},{'' @ [CHR 0x22] @ ''title'' @ [CHR 0x22] @ '':'' @
     [CHR 0x22] @ ''A'' @ [CHR 0x22] @ '','' @ [CHR 0x22] @ ''link'' @
     [CHR 0x22] @ '':'' @ [CHR 0x22] @ ''a'' @ [CHR 0x22] @ '','' @
     [CHR 0x22] @ ''department'' @ [CHR 0x22] @ '':'' @ [CHR 0x22] @
     [CHR 0x22] @ '','' @ [CHR 0x22] @ ''location'' @ [CHR 0x22] @ '':'' @
     [CHR 0x22] @ [CHR 0x22] @ ''}]''))) =
     [1534796404, 1769237605, 574235202, 573317740, 1768844066, 975331618,
      740451429, 1885434484, 1835363956, 574235170, 740453487, 1667331177,
      1869488698, 572685612, 2065855593, 1953260834, 975323426, 740453481,
      1852514874, 576791084, 577004912, 1634890861, 1701737506, 975315500,
      577531747, 1635019119, 1847736866, 578641280, 0, 0,
      0, 888]"
  by (simp add: pad_def replicate_numeral upto8)

lemma twins_BA_block1:
  "compress
     [1779033703, 3144134277, 1013904242, 2773480762, 1359893119, 2600822924,
      528734635, 1541459225]
     [1534796404, 1769237605, 574235202, 573317740, 1768844066, 975331618,
      740451429, 1885434484, 1835363956, 574235170, 740453487, 1667331177,
      1869488698, 572685612, 2065855593, 1953260834] =
     [1644087679, 1036353428, 2412692576, 1573425494, 3263247023, 4045960516,
      257972873, 3797954349]"
  by (simp add: sha_eval del: rounds.simps(2))

lemma twins_BA_block2:
  "compress
     [1644087679, 1036353428, 2412692576, 1573425494, 3263247023, 4045960516,
      257972873, 3797954349]
     [975323426, 740453481, 1852514874, 576791084, 577004912, 1634890861,
      1701737506, 975315500, 577531747, 1635019119, 1847736866, 578641280,
      0, 0, 0, 888] =
     [1295519858, 2462003768, 2550487956, 4128012848, 3953579497, 703194339,
      3960527256, 348258701]"
  by (simp add: sha_eval del: rounds.simps(2))

lemma twins_BA_digest:
  "sha256_hex
     (''[{'' @ [CHR 0x22] @ ''title'' @ [CHR 0x22] @ '':'' @ [CHR 0x22] @
     ''B'' @ [CHR 0x22] @ '','' @ [CHR 0x22] @ ''link'' @ [CHR 0x22] @
     '':'' @ [CHR 0x22] @ ''a'' @ [CHR 0x22] @ '','' @ [CHR 0x22] @
     ''department'' @ [CHR 0x22] @ '':'' @ [CHR 0x22] @ [CHR 0x22] @ '','' @
     [CHR 0x22] @ ''location'' @ [CHR 0x22] @ '':'' @ [CHR 0x22] @
     [CHR 0x22] @ ''},{'' @ [CHR 0x22] @ ''title'' @ [CHR 0x22] @ '':'' @
     [CHR 0x22] @ ''A'' @ [CHR 0x22] @ '','' @ [CHR 0x22] @ ''link'' @
     [CHR 0x22] @ '':'' @ [CHR 0x22] @ ''a'' @ [CHR 0x22] @ '','' @
     [CHR 0x22] @ ''department'' @ [CHR 0x22] @ '':'' @ [CHR 0x22] @
     [CHR 0x22] @ '','' @ [CHR 0x22] @ ''location'' @ [CHR 0x22] @ '':'' @
     [CHR 0x22] @ [CHR 0x22] @ ''}]'') =
     ''4d38107292bf323898055b94f60c7a30eba6d5e929e9e4e3ec10d99814c2018d''"
  unfolding sha256_hex_def sha256_def twins_BA_words
  by (simp add: initial_hash_def twins_BA_block1 twins_BA_block2 hex32_def hexdigit_def upto8)










text \<open>
  The serialisations of three short scrapes: two records with the same link, in both
  orders, and two records whose links are \<open>B\<close> and \<open>a\<close>, sorted by the collation of
  letters and by the order of the raw strings.
\<close>

lemma twins_AB_string:
  "jobsString collate_letters [short_job ''A'' ''a'', short_job ''B'' ''a''] =
     ''[{'' @ [CHR 0x22] @ ''title'' @ [CHR 0x22] @ '':'' @ [CHR 0x22] @
     ''A'' @ [CHR 0x22] @ '','' @ [CHR 0x22] @ ''link'' @ [CHR 0x22] @
     '':'' @ [CHR 0x22] @ ''a'' @ [CHR 0x22] @ '','' @ [CHR 0x22] @
     ''department'' @ [CHR 0x22] @ '':'' @ [CHR 0x22] @ [CHR 0x22] @ '','' @
     [CHR 0x22] @ ''location'' @ [CHR 0x22] @ '':'' @ [CHR 0x22] @
     [CHR 0x22] @ ''},{'' @ [CHR 0x22] @ ''title'' @ [CHR 0x22] @ '':'' @
     [CHR 0x22] @ ''B'' @ [CHR 0x22] @ '','' @ [CHR 0x22] @ ''link'' @
     [CHR 0x22] @ '':'' @ [CHR 0x22] @ ''a'' @ [CHR 0x22] @ '','' @
     [CHR 0x22] @ ''department'' @ [CHR 0x22] @ '':'' @ [CHR 0x22] @
     [CHR 0x22] @ '','' @ [CHR 0x22] @ ''location'' @ [CHR 0x22] @ '':'' @
     [CHR 0x22] @ [CHR 0x22] @ ''}]''"
  by (simp add: jobsString_def array_sort_def by_link_def canonical_of_def short_job_def
      collate_letters_def ascii_toLowerCase_def lower_char_def JSON_stringify_def
      json_object_def json_member_def json_string_def json_escape_def Let_def)

lemma twins_BA_string:
  "jobsString collate_letters [short_job ''B'' ''a'', short_job ''A'' ''a''] =
     ''[{'' @ [CHR 0x22] @ ''title'' @ [CHR 0x22] @ '':'' @ [CHR 0x22] @
     ''B'' @ [CHR 0x22] @ '','' @ [CHR 0x22] @ ''link'' @ [CHR 0x22] @
     '':'' @ [CHR 0x22] @ ''a'' @ [CHR 0x22] @ '','' @ [CHR 0x22] @
     ''department'' @ [CHR 0x22] @ '':'' @ [CHR 0x22] @ [CHR 0x22] @ '','' @
     [CHR 0x22] @ ''location'' @ [CHR 0x22] @ '':'' @ [CHR 0x22] @
     [CHR 0x22] @ ''},{'' @ [CHR 0x22] @ ''title'' @ [CHR 0x22] @ '':'' @
     [CHR 0x22] @ ''A'' @ [CHR 0x22] @ '','' @ [CHR 0x22] @ ''link'' @
     [CHR 0x22] @ '':'' @ [CHR 0x22] @ ''a'' @ [CHR 0x22] @ '','' @
     [CHR 0x22] @ ''department'' @ [CHR 0x22] @ '':'' @ [CHR 0x22] @
     [CHR 0x22] @ '','' @ [CHR 0x22] @ ''location'' @ [CHR 0x22] @ '':'' @
     [CHR 0x22] @ [CHR 0x22] @ ''}]''"
  by (simp add: jobsString_def array_sort_def by_link_def canonical_of_def short_job_def
      collate_letters_def ascii_toLowerCase_def lower_char_def JSON_stringify_def
      json_object_def json_member_def json_string_def json_escape_def Let_def)



lemma twins_AB_hash:
  "generateJobsHash collate_letters [short_job ''A'' ''a'', short_job ''B'' ''a''] =
     ''87a6e5e70b230ac9e39f751ab67a8c2c29190574280a8d13e69fafc0b06b7cfc''"
  unfolding generateJobsHash_def twins_AB_string by (rule twins_AB_digest)

lemma twins_BA_hash:
  "generateJobsHash collate_letters [short_job ''B'' ''a'', short_job ''A'' ''a''] =
     ''4d38107292bf323898055b94f60c7a30eba6d5e929e9e4e3ec10d99814c2018d''"
  unfolding generateJobsHash_def twins_BA_string by (rule twins_BA_digest)



section \<open>The content hash: the claims\<close>










text \<open>
  Where no two records with links that compare equal differ in title, department or
  location (in particular where the links are pairwise distinct under the collation),
  the sort removes the order of the scrape and the digest of a permutation is the
  digest of the original.
\<close>

lemma generateJobsHash_permuted:
  assumes "consistent localeCompare"
    and "\<forall>a\<in>set jobs. \<forall>b\<in>set jobs.
        localeCompare (link a) (link b) = 0 \<longrightarrow> canonical_of a = canonical_of b"
    and "mset jobs' = mset jobs"
  shows "generateJobsHash localeCompare jobs' = generateJobsHash localeCompare jobs"
  unfolding generateJobsHash_def using jobsString_permuted [OF assms] by simp




text \<open>
  C8. The claim has the digest of a permutation equal to the digest of the original,
  and the code sorts the tuples to that end; its comment reads
  \<^verbatim>\<open>// Sort for consistent hashing\<close>. The comparison looks at the link only and
  \<^verbatim>\<open>Array.prototype.sort\<close> is stable, so two records with the same link keep the
  order of the scrape. On two records with the link \<open>a\<close> and the titles \<open>A\<close> and
  \<open>B\<close>, scraped in this order and in the other, the serialisations differ and so do
  the digests. Where no two such records exist, the digest does not depend on the order
  (\<open>generateJobsHash_permuted\<close>).
\<close>

theorem C8_same_link_reordered:
  "mset [short_job ''B'' ''a'', short_job ''A'' ''a''] = mset [short_job ''A'' ''a'', short_job ''B'' ''a''] \<and>
   jobsString collate_letters [short_job ''A'' ''a'', short_job ''B'' ''a''] \<noteq>
     jobsString collate_letters [short_job ''B'' ''a'', short_job ''A'' ''a''] \<and>
   generateJobsHash collate_letters [short_job ''A'' ''a'', short_job ''B'' ''a''] =
     ''87a6e5e70b230ac9e39f751ab67a8c2c29190574280a8d13e69fafc0b06b7cfc'' \<and>
   generateJobsHash collate_letters [short_job ''B'' ''a'', short_job ''A'' ''a''] =
     ''4d38107292bf323898055b94f60c7a30eba6d5e929e9e4e3ec10d99814c2018d'' \<and>
   generateJobsHash collate_letters [short_job ''B'' ''a'', short_job ''A'' ''a''] \<noteq>
     generateJobsHash collate_letters [short_job ''A'' ''a'', short_job ''B'' ''a'']"
proof -
  have p: "mset [short_job ''B'' ''a'', short_job ''A'' ''a''] = mset [short_job ''A'' ''a'', short_job ''B'' ''a'']"
    by (simp add: add.commute)
  have s: "jobsString collate_letters [short_job ''A'' ''a'', short_job ''B'' ''a''] \<noteq>
      jobsString collate_letters [short_job ''B'' ''a'', short_job ''A'' ''a'']"
    unfolding twins_AB_string twins_BA_string by simp
  have d: "generateJobsHash collate_letters [short_job ''B'' ''a'', short_job ''A'' ''a''] \<noteq>
      generateJobsHash collate_letters [short_job ''A'' ''a'', short_job ''B'' ''a'']"
    unfolding twins_AB_hash twins_BA_hash by simp
  from p s twins_AB_hash twins_BA_hash d show ?thesis by (intro conjI)
qed

end
